theory Spec2Isabelle
  imports Complex_Main
begin

text \<open>
  A shallow embedding of the geometry engine of the GeoJSON canvas component
  (\<open>GeoJSONCanvas.tsx\<close>): the Mercator projection, the extraction of features, the
  bounds of an input, the fit of the viewport, the drawing of a feature and the hit
  test. Values of type \<open>any\<close> are JSON-like values, exceptions are results of a sum
  type, the component state is a record passed in and returned, and the drawing surface
  is the list of the calls made on it. The definitions come first, the facts about them
  after.
\<close>

section \<open>JavaScript values\<close>

subsection \<open>Numbers\<close>

text \<open>
  A JavaScript number is a finite value, one of the two infinities, or NaN. Finite values
  are modelled as reals: every operation below is exact on finite operands (no rounding,
  no overflow, no signed zero), and follows IEEE 754 wherever an operand or the result is
  an infinity or NaN. A non-zero finite value divided by zero is the infinity of the
  dividend's sign.

  The code computes on IEEE doubles. The model agrees with it on the control flow, on
  the exceptions and on the propagation of the infinities and NaN. It does not show
  rounding, cancellation or underflow: where a statement below gives a computed value,
  it is the exact one.
\<close>

datatype jsnum = Fin real | PInf | NInf | NaN

fun isFinite :: "jsnum \<Rightarrow> bool" where
  "isFinite (Fin r) = True"
| "isFinite v = False"

fun js_neg :: "jsnum \<Rightarrow> jsnum" where
  "js_neg (Fin a) = Fin (- a)"
| "js_neg PInf = NInf"
| "js_neg NInf = PInf"
| "js_neg NaN = NaN"

fun js_add :: "jsnum \<Rightarrow> jsnum \<Rightarrow> jsnum" where
  "js_add (Fin a) (Fin b) = Fin (a + b)"
| "js_add NaN v = NaN"
| "js_add v NaN = NaN"
| "js_add PInf NInf = NaN"
| "js_add NInf PInf = NaN"
| "js_add PInf v = PInf"
| "js_add v PInf = PInf"
| "js_add NInf v = NInf"
| "js_add v NInf = NInf"

definition js_sub :: "jsnum \<Rightarrow> jsnum \<Rightarrow> jsnum" where
  "js_sub a b = js_add a (js_neg b)"

fun js_mul :: "jsnum \<Rightarrow> jsnum \<Rightarrow> jsnum" where
  "js_mul (Fin a) (Fin b) = Fin (a * b)"
| "js_mul NaN v = NaN"
| "js_mul v NaN = NaN"
| "js_mul PInf (Fin b) = (if b = 0 then NaN else if 0 < b then PInf else NInf)"
| "js_mul NInf (Fin b) = (if b = 0 then NaN else if 0 < b then NInf else PInf)"
| "js_mul (Fin a) PInf = (if a = 0 then NaN else if 0 < a then PInf else NInf)"
| "js_mul (Fin a) NInf = (if a = 0 then NaN else if 0 < a then NInf else PInf)"
| "js_mul PInf PInf = PInf"
| "js_mul NInf NInf = PInf"
| "js_mul PInf NInf = NInf"
| "js_mul NInf PInf = NInf"

fun js_div :: "jsnum \<Rightarrow> jsnum \<Rightarrow> jsnum" where
  "js_div (Fin a) (Fin b) =
     (if b = 0 then (if a = 0 then NaN else if 0 < a then PInf else NInf) else Fin (a / b))"
| "js_div NaN v = NaN"
| "js_div v NaN = NaN"
| "js_div (Fin a) v = Fin 0"
| "js_div PInf (Fin b) = (if 0 \<le> b then PInf else NInf)"
| "js_div NInf (Fin b) = (if 0 \<le> b then NInf else PInf)"
| "js_div v w = NaN"

text \<open>The comparisons \<open><\<close>, \<open>===\<close>, \<open><=\<close> and \<open>>\<close>: every comparison with NaN is false.\<close>

fun js_lt :: "jsnum \<Rightarrow> jsnum \<Rightarrow> bool" where
  "js_lt (Fin a) (Fin b) = (a < b)"
| "js_lt NaN v = False"
| "js_lt v NaN = False"
| "js_lt v NInf = False"
| "js_lt PInf v = False"
| "js_lt v w = True"

fun js_eq :: "jsnum \<Rightarrow> jsnum \<Rightarrow> bool" where
  "js_eq (Fin a) (Fin b) = (a = b)"
| "js_eq PInf PInf = True"
| "js_eq NInf NInf = True"
| "js_eq v w = False"

definition js_le :: "jsnum \<Rightarrow> jsnum \<Rightarrow> bool" where
  "js_le a b = (js_lt a b \<or> js_eq a b)"

definition js_gt :: "jsnum \<Rightarrow> jsnum \<Rightarrow> bool" where
  "js_gt a b = js_lt b a"

text \<open>A number is falsy when it is zero or NaN.\<close>

fun num_truthy :: "jsnum \<Rightarrow> bool" where
  "num_truthy (Fin a) = (a \<noteq> 0)"
| "num_truthy NaN = False"
| "num_truthy v = True"

text \<open>\<open>a || b\<close> on numbers.\<close>

definition num_or :: "jsnum \<Rightarrow> jsnum \<Rightarrow> jsnum" where
  "num_or a b = (if num_truthy a then a else b)"

subsection \<open>The Math object\<close>

definition Math_PI :: jsnum where
  "Math_PI = Fin pi"

fun Math_min :: "jsnum \<Rightarrow> jsnum \<Rightarrow> jsnum" where
  "Math_min NaN v = NaN"
| "Math_min v NaN = NaN"
| "Math_min a b = (if js_lt a b then a else b)"

fun Math_max :: "jsnum \<Rightarrow> jsnum \<Rightarrow> jsnum" where
  "Math_max NaN v = NaN"
| "Math_max v NaN = NaN"
| "Math_max a b = (if js_lt a b then b else a)"

fun Math_log :: "jsnum \<Rightarrow> jsnum" where
  "Math_log (Fin a) = (if a < 0 then NaN else if a = 0 then NInf else Fin (ln a))"
| "Math_log PInf = PInf"
| "Math_log v = NaN"

fun Math_cos :: "jsnum \<Rightarrow> jsnum" where
  "Math_cos (Fin a) = Fin (cos a)"
| "Math_cos v = NaN"

text \<open>
  The tangent is the quotient of sine and cosine, taken with the division above, so that
  an exact pole is a division by zero and not a finite value. No double is an exact
  pole: \<open>Math.tan(Math.PI / 2)\<close> is the finite \<open>1.633e16\<close>, and the code's projection of
  latitude 90 is finite where the model's is not. Nothing below evaluates the tangent at
  a pole.
\<close>

fun Math_tan :: "jsnum \<Rightarrow> jsnum" where
  "Math_tan (Fin a) = js_div (Fin (sin a)) (Fin (cos a))"
| "Math_tan v = NaN"

text \<open>\<open>Math.hypot\<close>: an infinite argument gives \<open>Infinity\<close>, also beside NaN.\<close>

fun Math_hypot :: "jsnum \<Rightarrow> jsnum \<Rightarrow> jsnum" where
  "Math_hypot (Fin a) (Fin b) = Fin (sqrt (a * a + b * b))"
| "Math_hypot PInf v = PInf"
| "Math_hypot NInf v = PInf"
| "Math_hypot v PInf = PInf"
| "Math_hypot v NInf = PInf"
| "Math_hypot v w = NaN"

subsection \<open>Values of type \<open>any\<close>\<close>

text \<open>
  The GeoJSON input is typed \<open>any\<close>. It is modelled as a JSON-like value; an object is
  an association list of its own properties, looked up by key.
\<close>

datatype json =
    JUndefined
  | JNull
  | JBool bool
  | JNum jsnum
  | JStr string
  | JArr "json list"
  | JObj "(string \<times> json) list"

text \<open>
  The exceptions the code can throw: a \<open>TypeError\<close> (a property of \<open>null\<close> or
  \<open>undefined\<close> is read, a value that is not iterable is iterated or destructured, a
  method that does not exist is called) and a \<open>RangeError\<close> (the call stack is
  exhausted). \<open>Unmodelled\<close> is not an exception of JavaScript: it marks the point where a
  value that is not a number reaches arithmetic or a comparison that the TypeScript
  signatures type as \<open>number\<close>, or where the \<open>length\<close> of a value that is neither an
  array nor a string is read. JavaScript would coerce the value; the coercions are not
  modelled and the evaluation of the model stops there.
\<close>

datatype error = TypeError | RangeError | Unmodelled

definition bindE :: "error + 'a \<Rightarrow> ('a \<Rightarrow> error + 'b) \<Rightarrow> error + 'b" where
  "bindE m f = (case m of Inl e \<Rightarrow> Inl e | Inr v \<Rightarrow> f v)"

fun truthy :: "json \<Rightarrow> bool" where
  "truthy JUndefined = False"
| "truthy JNull = False"
| "truthy (JBool b) = b"
| "truthy (JNum n) = num_truthy n"
| "truthy (JStr s) = (s \<noteq> [])"
| "truthy (JArr xs) = True"
| "truthy (JObj kvs) = True"

text \<open>\<open>a || b\<close> on values.\<close>

definition js_or :: "json \<Rightarrow> json \<Rightarrow> json" where
  "js_or a b = (if truthy a then a else b)"

text \<open>
  \<open>v.k\<close> for one of the names the code reads (\<open>type\<close>, \<open>features\<close>, \<open>geometries\<close>,
  \<open>coordinates\<close>, \<open>geometry\<close>): the property of an object, \<open>undefined\<close> on a missing
  property and on a number, a boolean, a string or an array. Reading a property of
  \<open>null\<close> or \<open>undefined\<close> throws: \<open>member\<close> is the read with that check, \<open>field\<close>
  the read where the receiver is known to be neither.
\<close>

fun field :: "json \<Rightarrow> string \<Rightarrow> json" where
  "field (JObj kvs) k = (case map_of kvs k of None \<Rightarrow> JUndefined | Some v \<Rightarrow> v)"
| "field v k = JUndefined"

fun member :: "json \<Rightarrow> string \<Rightarrow> error + json" where
  "member JUndefined k = Inl TypeError"
| "member JNull k = Inl TypeError"
| "member v k = Inr (field v k)"

text \<open>The decimal name of an index, for the properties \<open>"0"\<close>, \<open>"1"\<close>, ... of an object.\<close>

fun dec :: "nat \<Rightarrow> string" where
  "dec n = (if n < 10 then [''0123456789'' ! n]
            else dec (n div 10) @ [''0123456789'' ! (n mod 10)])"

text \<open>
  \<open>v[i]\<close>: an element of an array, a one-character string of a string, the property
  named by the index of an object; \<open>undefined\<close> out of range and on a number or a
  boolean; a \<open>TypeError\<close> on \<open>null\<close> and \<open>undefined\<close>.
\<close>

fun index :: "json \<Rightarrow> nat \<Rightarrow> error + json" where
  "index JUndefined i = Inl TypeError"
| "index JNull i = Inl TypeError"
| "index (JArr xs) i = Inr (if i < length xs then xs ! i else JUndefined)"
| "index (JStr s) i = Inr (if i < length s then JStr [s ! i] else JUndefined)"
| "index (JObj kvs) i = Inr (field (JObj kvs) (dec i))"
| "index v i = Inr JUndefined"

text \<open>
  \<open>for (const c of v)\<close>: the elements of an array, the characters of a string; every
  other value is not iterable.
\<close>

fun iterate :: "json \<Rightarrow> error + json list" where
  "iterate (JArr xs) = Inr xs"
| "iterate (JStr s) = Inr (map (\<lambda>c. JStr [c]) s)"
| "iterate v = Inl TypeError"

fun isNumber :: "json \<Rightarrow> bool" where
  "isNumber (JNum n) = True"
| "isNumber v = False"

text \<open>A value passed where the signature says \<open>number\<close>.\<close>

fun toNum :: "json \<Rightarrow> error + jsnum" where
  "toNum (JNum n) = Inr n"
| "toNum v = Inl Unmodelled"

text \<open>\<open>v.length\<close> of an array or a string.\<close>

fun lengthOf :: "json \<Rightarrow> error + nat" where
  "lengthOf JUndefined = Inl TypeError"
| "lengthOf JNull = Inl TypeError"
| "lengthOf (JArr xs) = Inr (length xs)"
| "lengthOf (JStr s) = Inr (length s)"
| "lengthOf v = Inl Unmodelled"

text \<open>
  \<open>for (const x of xs) body\<close> over a state, and \<open>xs.map(f)\<close>, both stopping at the first
  exception; and a loop whose body returns from the enclosing function on a hit.
\<close>

primrec foldE :: "('a \<Rightarrow> 's \<Rightarrow> error + 's) \<Rightarrow> 'a list \<Rightarrow> 's \<Rightarrow> error + 's" where
  "foldE f [] s = Inr s"
| "foldE f (x # xs) s = bindE (f x s) (foldE f xs)"

primrec mapE :: "('a \<Rightarrow> error + 'b) \<Rightarrow> 'a list \<Rightarrow> error + 'b list" where
  "mapE f [] = Inr []"
| "mapE f (x # xs) = bindE (f x) (\<lambda>y. bindE (mapE f xs) (\<lambda>ys. Inr (y # ys)))"

primrec anyE :: "('a \<Rightarrow> error + bool) \<Rightarrow> 'a list \<Rightarrow> error + bool" where
  "anyE p [] = Inr False"
| "anyE p (x # xs) = bindE (p x) (\<lambda>hit. if hit then Inr True else anyE p xs)"

section \<open>Projection\<close>

text \<open>
  \<open>lonLatToMercator\<close> returns the object \<open>{x, y}\<close>, here the pair \<open>(x, y)\<close>. On doubles
  the sum \<open>tan + 1 / cos\<close> cancels near latitude -90, where the code returns \<open>Infinity\<close> or
  NaN at latitudes inside the open interval (at -89.9999999, for one), and longitudes
  closer than the rounding step share one \<open>x\<close>. The exact arithmetic of the model shows
  neither. The facts below evaluate the projection at \<open>(0, 0)\<close>, \<open>(180, 0)\<close> and
  \<open>(0, 180)\<close> only, where the doubles give the same values: \<open>(0.5, 0.5)\<close>, \<open>(1, 0.5)\<close>
  and \<open>(0.5, NaN)\<close>.
\<close>

definition lonLatToMercator :: "jsnum \<Rightarrow> jsnum \<Rightarrow> jsnum \<times> jsnum" where
  "lonLatToMercator lon lat =
     (let x = js_div (js_add lon (Fin 180)) (Fin 360);
          y = js_div
                (js_sub (Fin 1)
                   (js_div
                      (Math_log
                         (js_add (Math_tan (js_div (js_mul lat Math_PI) (Fin 180)))
                            (js_div (Fin 1) (Math_cos (js_div (js_mul lat Math_PI) (Fin 180))))))
                      Math_PI))
                (Fin 2)
      in (x, y))"

section \<open>Feature extraction\<close>

text \<open>The synthetic feature \<open>{ type: 'Feature', geometry: g, properties: {} }\<close>.\<close>

definition synthetic :: "json \<Rightarrow> json" where
  "synthetic g = JObj [(''type'', JStr ''Feature''), (''geometry'', g), (''properties'', JObj [])]"

definition extractFeatures :: "json \<Rightarrow> error + json list" where
  "extractFeatures geojson =
     (if \<not> truthy geojson then Inr []
      else if field geojson ''type'' = JStr ''FeatureCollection'' then
        iterate (js_or (field geojson ''features'') (JArr []))
      else if field geojson ''type'' = JStr ''Feature'' then Inr [geojson]
      else if field geojson ''type'' = JStr ''GeometryCollection'' then
        bindE (iterate (js_or (field geojson ''geometries'') (JArr [])))
          (\<lambda>gs. Inr (map synthetic gs))
      else if truthy (field geojson ''type'') \<and> truthy (field geojson ''coordinates'') then
        Inr [synthetic geojson]
      else Inr [])"

section \<open>Bounds\<close>

record bounds =
  minX :: jsnum
  minY :: jsnum
  maxX :: jsnum
  maxY :: jsnum

text \<open>The four accumulators before the first coordinate.\<close>

definition initBounds :: bounds where
  "initBounds = \<lparr>minX = PInf, minY = PInf, maxX = NInf, maxY = NInf\<rparr>"

text \<open>The four assignments of \<open>visitCoords\<close> at a projected coordinate \<open>p\<close>.\<close>

definition foldPoint :: "jsnum \<times> jsnum \<Rightarrow> bounds \<Rightarrow> bounds" where
  "foldPoint p b =
     \<lparr>minX = Math_min (minX b) (fst p), minY = Math_min (minY b) (snd p),
      maxX = Math_max (maxX b) (fst p), maxY = Math_max (maxY b) (snd p)\<rparr>"

text \<open>
  \<open>typeof coords[0] === 'number' && typeof coords[1] === 'number'\<close> on an array, with the
  two numbers that \<open>[lon, lat] = coords\<close> then binds.
\<close>

fun numPair :: "json list \<Rightarrow> (jsnum \<times> jsnum) option" where
  "numPair (JNum lon # JNum lat # rest) = Some (lon, lat)"
| "numPair cs = None"

text \<open>
  \<open>visitCoords\<close>, with the accumulators passed in and returned. An array whose first two
  elements are numbers is a leaf; any other array is visited element by element.
  The empty string has no element \<open>0\<close> and no characters and leaves the accumulators
  as they are; a non-empty string iterates to its one-character strings, each of which
  iterates to itself, and the recursion exhausts the call stack. \<open>null\<close> and
  \<open>undefined\<close> fail at \<open>coords[0]\<close>; a number, a boolean and an object are not
  iterable (an object with numeric properties \<open>"0"\<close> and \<open>"1"\<close> fails at the
  destructuring, any other at the loop).
\<close>

fun visitCoords :: "json \<Rightarrow> bounds \<Rightarrow> error + bounds"
  and visitEach :: "json list \<Rightarrow> bounds \<Rightarrow> error + bounds" where
  "visitCoords (JArr cs) b =
     (case numPair cs of
        Some (lon, lat) \<Rightarrow> Inr (foldPoint (lonLatToMercator lon lat) b)
      | None \<Rightarrow> visitEach cs b)"
| "visitCoords (JStr s) b = (if s = [] then Inr b else Inl RangeError)"
| "visitCoords v b = Inl TypeError"
| "visitEach [] b = Inr b"
| "visitEach (c # cs) b =
     (case visitCoords c b of Inl e \<Rightarrow> Inl e | Inr b' \<Rightarrow> visitEach cs b')"

text \<open>The body of the loop over the features.\<close>

definition visitFeature :: "json \<Rightarrow> bounds \<Rightarrow> error + bounds" where
  "visitFeature f b =
     bindE (member f ''geometry'') (\<lambda>geom.
       if \<not> truthy geom then Inr b
       else
         let type = field geom ''type''; coordinates = field geom ''coordinates'' in
         if type = JStr ''Point'' then visitCoords coordinates b
         else if type = JStr ''MultiPoint'' \<or> type = JStr ''LineString'' then
           visitCoords coordinates b
         else if type = JStr ''MultiLineString'' \<or> type = JStr ''Polygon'' then
           visitCoords coordinates b
         else if type = JStr ''MultiPolygon'' then visitCoords coordinates b
         else if type = JStr ''GeometryCollection'' then
           bindE (iterate (js_or (field geom ''geometries'') (JArr [])))
             (\<lambda>gs. foldE (\<lambda>g b'. bindE (member g ''coordinates'') (\<lambda>c. visitCoords c b')) gs b)
         else Inr b)"

text \<open>\<open>getBoundsOfGeojson\<close>: \<open>None\<close> is the \<open>null\<close> it returns.\<close>

definition getBoundsOfGeojson :: "json \<Rightarrow> error + bounds option" where
  "getBoundsOfGeojson geojson =
     bindE (extractFeatures geojson) (\<lambda>features.
       if length features = 0 then Inr None
       else bindE (foldE visitFeature features initBounds) (\<lambda>b. Inr (Some b)))"

section \<open>Component state\<close>

text \<open>A feature identifier is a string or a number.\<close>

datatype featureId = IdNum jsnum | IdStr string

text \<open>The internal feature \<open>{ id, feature }\<close>.\<close>

record ifeature =
  id' :: featureId
  feature :: json

record viewport =
  scale :: jsnum
  translateX :: jsnum
  translateY :: jsnum

text \<open>The object held by \<open>stateRef.current\<close>.\<close>

record state =
  viewport :: viewport
  features :: "ifeature list"
  featureBounds :: "bounds option"
  hoverId :: "featureId option"
  dpr :: jsnum

text \<open>
  The canvas element, as far as the code reads it: its CSS size and whether
  \<open>getContext('2d')\<close> gives a context. \<open>canvasRef.current\<close> is a \<open>canvas option\<close>.
\<close>

record canvas =
  clientWidth :: jsnum
  clientHeight :: jsnum
  context2d :: bool

text \<open>
  \<open>buildInternalFeatures\<close>. The feature list is stored before the bounds are computed,
  so an exception of \<open>getBoundsOfGeojson\<close> leaves the new list beside the old bounds.
  The result is the state and the exception thrown, if any.
\<close>

definition buildInternalFeatures ::
  "(json \<Rightarrow> nat \<Rightarrow> featureId) option \<Rightarrow> json \<Rightarrow> state \<Rightarrow> state \<times> error option" where
  "buildInternalFeatures getFeatureId gj st =
     (case extractFeatures gj of
        Inl e \<Rightarrow> (st, Some e)
      | Inr fs \<Rightarrow>
          let feats = map (\<lambda>(i, f).
                \<lparr>id' = (case getFeatureId of Some g \<Rightarrow> g f i | None \<Rightarrow> IdNum (Fin (real i))),
                 feature = f\<rparr>) (enumerate 0 fs);
              st1 = st\<lparr>features := feats\<rparr>
          in (case getBoundsOfGeojson gj of
                Inl e \<Rightarrow> (st1, Some e)
              | Inr b \<Rightarrow> (st1\<lparr>featureBounds := b\<rparr>, None)))"

definition mercatorToCanvas ::
  "viewport \<Rightarrow> jsnum \<Rightarrow> jsnum \<Rightarrow> jsnum \<Rightarrow> jsnum \<Rightarrow> jsnum \<times> jsnum" where
  "mercatorToCanvas vp xNorm yNorm ctxW ctxH =
     (js_add (js_mul (js_mul xNorm ctxW) (scale vp)) (translateX vp),
      js_add (js_mul (js_mul yNorm ctxH) (scale vp)) (translateY vp))"

section \<open>Drawing\<close>

text \<open>
  The style of one geometry class. The three style types of the source share their
  fields; a field the type of a class does not have is \<open>None\<close>, as is an absent one.
\<close>

record style =
  radius :: "jsnum option"
  fill :: "string option"
  stroke :: "string option"
  lineWidth :: "jsnum option"
  lineDash :: "jsnum list option"

text \<open>
  \<open>mergedStyles\<close>, with its three entries present, as the non-null assertions of
  \<open>drawFeature\<close> say.
\<close>

record styles =
  point :: style
  line :: style
  polygon :: style

definition defaultStyles :: styles where
  "defaultStyles =
     \<lparr>point = \<lparr>radius = Some (Fin 4), fill = Some ''#1976d2'', stroke = Some ''#fff'',
                lineWidth = Some (Fin 1), lineDash = None\<rparr>,
      line = \<lparr>radius = None, fill = None, stroke = Some ''#1976d2'',
               lineWidth = Some (Fin 2), lineDash = None\<rparr>,
      polygon = \<lparr>radius = None, fill = Some ''rgba(25,118,210,0.2)'', stroke = Some ''#1976d2'',
                  lineWidth = Some (Fin 1), lineDash = None\<rparr>\<rparr>"

text \<open>\<open>v || d\<close> for an optional number or string.\<close>

fun optOr :: "jsnum option \<Rightarrow> jsnum \<Rightarrow> jsnum" where
  "optOr None d = d"
| "optOr (Some v) d = num_or v d"

fun strOr :: "string option \<Rightarrow> string \<Rightarrow> string" where
  "strOr None d = d"
| "strOr (Some v) d = (if v \<noteq> [] then v else d)"

text \<open>
  The drawing surface is an external collaborator: the model records the calls made on
  the context and the canvas, and the values assigned to their properties, in order.
\<close>

datatype drawcall =
    SetWidth jsnum
  | SetHeight jsnum
  | SetTransform jsnum jsnum jsnum jsnum jsnum jsnum
  | FillRect jsnum jsnum jsnum jsnum
  | ClearRect jsnum jsnum jsnum jsnum
  | BeginPath
  | Arc jsnum jsnum jsnum jsnum jsnum
  | MoveTo jsnum jsnum
  | LineTo jsnum jsnum
  | Fill
  | Stroke
  | SetFillStyle string
  | SetStrokeStyle string
  | SetLineWidth jsnum
  | SetLineDash "jsnum list"

text \<open>
  A drawing computation gives the calls it has made and then its value, or the exception
  that ended it: the calls made before an exception stay made.
\<close>

type_synonym 'a draw = "drawcall list \<times> (error + 'a)"

definition emit :: "drawcall list \<Rightarrow> unit draw" where
  "emit cs = (cs, Inr ())"

definition liftE :: "error + 'a \<Rightarrow> 'a draw" where
  "liftE r = ([], r)"

definition bindD :: "'a draw \<Rightarrow> ('a \<Rightarrow> 'b draw) \<Rightarrow> 'b draw" where
  "bindD m f =
     (case snd m of
        Inl e \<Rightarrow> (fst m, Inl e)
      | Inr v \<Rightarrow> (fst m @ fst (f v), snd (f v)))"

primrec foldD :: "('a \<Rightarrow> 's \<Rightarrow> 's draw) \<Rightarrow> 'a list \<Rightarrow> 's \<Rightarrow> 's draw" where
  "foldD f [] s = ([], Inr s)"
| "foldD f (x # xs) s = bindD (f x s) (foldD f xs)"

text \<open>
  \<open>drawCoords\<close>: \<open>None\<close> is the \<open>null\<close> it returns. The destructuring
  \<open>[lon, lat] = coords\<close> iterates \<open>coords\<close>.
\<close>

definition drawCoords ::
  "viewport \<Rightarrow> jsnum \<Rightarrow> jsnum \<Rightarrow> json \<Rightarrow> error + (jsnum \<times> jsnum) option" where
  "drawCoords vp ctxW ctxH coords =
     bindE (index coords 0) (\<lambda>c0. bindE (index coords 1) (\<lambda>c1.
       if isNumber c0 \<and> isNumber c1 then
         bindE (iterate coords) (\<lambda>elems.
         bindE (toNum (if 0 < length elems then elems ! 0 else JUndefined)) (\<lambda>lon.
         bindE (toNum (if 1 < length elems then elems ! 1 else JUndefined)) (\<lambda>lat.
           let p = lonLatToMercator lon lat;
               c = mercatorToCanvas vp (fst p) (snd p) ctxW ctxH
           in Inr (Some c))))
       else Inr None))"

text \<open>
  The fill and the stroke that end a marker and a polygon:
  \<open>if (t.fill) { ctx.fillStyle = t.fill; ctx.fill(); }\<close> and
  \<open>if (t.stroke) { ctx.lineWidth = t.lineWidth || 1; ctx.strokeStyle = t.stroke; ctx.stroke(); }\<close>.
\<close>

definition fillAndStroke :: "style \<Rightarrow> drawcall list" where
  "fillAndStroke t =
     (case fill t of
        None \<Rightarrow> []
      | Some c \<Rightarrow> if c \<noteq> [] then [SetFillStyle c, Fill] else [])
     @ (case stroke t of
          None \<Rightarrow> []
        | Some c \<Rightarrow>
            if c \<noteq> [] then [SetLineWidth (optOr (lineWidth t) (Fin 1)), SetStrokeStyle c, Stroke]
            else [])"

text \<open>The marker of a point: the body shared by the \<open>Point\<close> and \<open>MultiPoint\<close> branches.\<close>

definition drawMarker :: "style \<Rightarrow> jsnum \<times> jsnum \<Rightarrow> unit draw" where
  "drawMarker tPoint c =
     emit ([BeginPath,
            Arc (fst c) (snd c) (optOr (radius tPoint) (Fin 3)) (Fin 0) (js_mul Math_PI (Fin 2))]
           @ fillAndStroke tPoint)"

text \<open>
  One coordinate of a path: the body of the innermost loop of the line and polygon
  branches, from the flag \<open>started\<close> to its new value.
\<close>

definition pathCoord :: "viewport \<Rightarrow> jsnum \<Rightarrow> jsnum \<Rightarrow> json \<Rightarrow> bool \<Rightarrow> bool draw" where
  "pathCoord vp ctxW ctxH coord started =
     bindD (liftE (drawCoords vp ctxW ctxH coord)) (\<lambda>c.
       case c of
         None \<Rightarrow> ([], Inr started)
       | Some c \<Rightarrow>
           if \<not> started then ([MoveTo (fst c) (snd c)], Inr True)
           else ([LineTo (fst c) (snd c)], Inr started))"

text \<open>\<open>for (const coord of ring) ...\<close>\<close>

definition pathRing :: "viewport \<Rightarrow> jsnum \<Rightarrow> jsnum \<Rightarrow> json \<Rightarrow> bool \<Rightarrow> bool draw" where
  "pathRing vp ctxW ctxH ring started =
     bindD (liftE (iterate ring)) (\<lambda>coords. foldD (pathCoord vp ctxW ctxH) coords started)"

text \<open>
  The bodies of the three loops of \<open>drawFeature\<close>. \<open>drawPoint\<close> is the body of the
  loop of the \<open>MultiPoint\<close> branch and, with \<open>return\<close> for \<open>continue\<close>, the \<open>Point\<close>
  branch: the pixel of the coordinate, nothing more if there is none, else the marker.
  \<open>drawLine\<close> is the body of the loop over \<open>lines\<close>: one path, started afresh.
  \<open>drawPoly\<close> is the body of the loop over \<open>polys\<close>: a new path through all rings of
  the polygon, then the fill and the stroke.
\<close>

definition drawPoint :: "style \<Rightarrow> viewport \<Rightarrow> jsnum \<Rightarrow> jsnum \<Rightarrow> json \<Rightarrow> unit draw" where
  "drawPoint tPoint vp ctxW ctxH coord =
     bindD (liftE (drawCoords vp ctxW ctxH coord)) (\<lambda>c.
       case c of None \<Rightarrow> emit [] | Some c \<Rightarrow> drawMarker tPoint c)"

definition drawLine :: "viewport \<Rightarrow> jsnum \<Rightarrow> jsnum \<Rightarrow> json \<Rightarrow> unit draw" where
  "drawLine vp ctxW ctxH ring =
     bindD (pathRing vp ctxW ctxH ring False) (\<lambda>started. emit [])"

definition drawPoly :: "style \<Rightarrow> viewport \<Rightarrow> jsnum \<Rightarrow> jsnum \<Rightarrow> json \<Rightarrow> unit draw" where
  "drawPoly tPoly vp ctxW ctxH poly =
     bindD (emit [BeginPath]) (\<lambda>u.
     bindD (liftE (iterate poly)) (\<lambda>rings.
     bindD (foldD (pathRing vp ctxW ctxH) rings False) (\<lambda>started.
     emit (fillAndStroke tPoly))))"

definition drawFeature :: "styles \<Rightarrow> viewport \<Rightarrow> ifeature \<Rightarrow> jsnum \<Rightarrow> jsnum \<Rightarrow> unit draw" where
  "drawFeature mergedStyles vp f ctxW ctxH =
     (if \<not> truthy (feature f) then emit []
      else
        let geom = field (feature f) ''geometry'' in
        if \<not> truthy geom then emit []
        else
          let tLine = line mergedStyles;
              tPoly = polygon mergedStyles;
              tPoint = point mergedStyles;
              type = field geom ''type''
          in
          if type = JStr ''Point'' then
            drawPoint tPoint vp ctxW ctxH (field geom ''coordinates'')
          else if type = JStr ''MultiPoint'' then
            bindD (liftE (iterate (field geom ''coordinates''))) (\<lambda>coords.
              foldD (\<lambda>coord u. drawPoint tPoint vp ctxW ctxH coord) coords ())
          else if type = JStr ''LineString'' \<or> type = JStr ''MultiLineString'' then
            (let lines = (if type = JStr ''LineString'' then JArr [field geom ''coordinates'']
                          else field geom ''coordinates'')
             in
             bindD (emit ([SetLineWidth (optOr (lineWidth tLine) (Fin 1)),
                           SetStrokeStyle (strOr (stroke tLine) ''#000'')]
                          @ (case lineDash tLine of None \<Rightarrow> [] | Some d \<Rightarrow> [SetLineDash d])
                          @ [BeginPath])) (\<lambda>u.
             bindD (liftE (iterate lines)) (\<lambda>rings.
             bindD (foldD (\<lambda>ring u. drawLine vp ctxW ctxH ring) rings ()) (\<lambda>u.
             emit [Stroke, SetLineDash []]))))
          else if type = JStr ''Polygon'' \<or> type = JStr ''MultiPolygon'' then
            (let polys = (if type = JStr ''Polygon'' then JArr [field geom ''coordinates'']
                          else field geom ''coordinates'')
             in
             bindD (liftE (iterate polys)) (\<lambda>ps.
               foldD (\<lambda>poly u. drawPoly tPoly vp ctxW ctxH poly) ps ()))
          else emit [])"

text \<open>\<open>Math.round\<close> rounds to the nearest integer, a half upwards.\<close>

fun Math_round :: "jsnum \<Rightarrow> jsnum" where
  "Math_round (Fin a) = Fin (of_int \<lfloor>a + 1 / 2\<rfloor>)"
| "Math_round v = v"

text \<open>\<open>render\<close>; \<open>background\<close> is a string or \<open>null\<close>.\<close>

definition render :: "string option \<Rightarrow> styles \<Rightarrow> canvas option \<Rightarrow> state \<Rightarrow> unit draw" where
  "render background mergedStyles canvasRef st =
     (case canvasRef of
        None \<Rightarrow> emit []
      | Some canvas \<Rightarrow>
          if \<not> context2d canvas then emit []
          else
            let dpr = num_or (dpr st) (Fin 1);
                cssW = clientWidth canvas;
                cssH = clientHeight canvas
            in
            bindD (emit ([SetWidth (Math_round (js_mul cssW dpr)),
                          SetHeight (Math_round (js_mul cssH dpr)),
                          SetTransform dpr (Fin 0) (Fin 0) dpr (Fin 0) (Fin 0)]
                         @ (case background of
                              None \<Rightarrow> [ClearRect (Fin 0) (Fin 0) cssW cssH]
                            | Some c \<Rightarrow>
                                if c \<noteq> [] then [SetFillStyle c, FillRect (Fin 0) (Fin 0) cssW cssH]
                                else [ClearRect (Fin 0) (Fin 0) cssW cssH]))) (\<lambda>u.
              foldD (\<lambda>f u. drawFeature mergedStyles (viewport st) f cssW cssH) (features st) ()))"

section \<open>Fitting the viewport\<close>

text \<open>The viewport that \<open>fitBounds\<close> computes from the bounds and the CSS size.\<close>

definition fitViewport :: "jsnum \<Rightarrow> jsnum \<Rightarrow> jsnum \<Rightarrow> bounds \<Rightarrow> viewport" where
  "fitViewport padding cssW cssH bounds =
     (let worldW = num_or (js_sub (maxX bounds) (minX bounds)) (Fin (1 / 10 ^ 6));
          worldH = num_or (js_sub (maxY bounds) (minY bounds)) (Fin (1 / 10 ^ 6));
          scaleX = js_div (js_sub cssW (js_mul padding (Fin 2))) worldW;
          scaleY = js_div (js_sub cssH (js_mul padding (Fin 2))) worldH;
          scale = Math_min scaleX scaleY;
          translateX =
            js_add (js_add (js_mul (js_mul (js_neg (minX bounds)) cssW) scale) padding)
              (js_div
                 (js_sub (js_sub cssW (js_mul (js_mul worldW cssW) scale))
                    (js_mul padding (Fin 2)))
                 (Fin 2));
          translateY =
            js_add (js_add (js_mul (js_mul (js_neg (minY bounds)) cssH) scale) padding)
              (js_div
                 (js_sub (js_sub cssH (js_mul (js_mul worldH cssH) scale))
                    (js_mul padding (Fin 2)))
                 (Fin 2))
      in \<lparr>scale = scale, translateX = translateX, translateY = translateY\<rparr>)"

text \<open>
  \<open>fitBounds\<close>: without a canvas or without bounds nothing happens; otherwise the
  viewport is stored and the canvas rendered. The result is the state and the drawing.
\<close>

definition fitBounds ::
  "jsnum \<Rightarrow> string option \<Rightarrow> styles \<Rightarrow> canvas option \<Rightarrow> state \<Rightarrow> state \<times> unit draw" where
  "fitBounds padding background mergedStyles canvasRef st =
     (case canvasRef of
        None \<Rightarrow> (st, emit [])
      | Some canvas \<Rightarrow>
          (case featureBounds st of
             None \<Rightarrow> (st, emit [])
           | Some bounds \<Rightarrow>
               let st' = st\<lparr>viewport :=
                     fitViewport padding (clientWidth canvas) (clientHeight canvas) bounds\<rparr>
               in (st', render background mergedStyles canvasRef st')))"

section \<open>Hit testing\<close>

text \<open>
  The loop of \<open>pointInPolygon\<close>, from the indices \<open>i\<close> and \<open>j\<close> and the flag
  \<open>inside\<close>; a vertex is the pair of its \<open>[0]\<close> and \<open>[1]\<close>.
\<close>

function pipLoop ::
  "jsnum \<Rightarrow> jsnum \<Rightarrow> (jsnum \<times> jsnum) list \<Rightarrow> nat \<Rightarrow> nat \<Rightarrow> bool \<Rightarrow> bool" where
  "pipLoop x y poly i j inside =
     (if i < length poly then
        let xi = fst (poly ! i); yi = snd (poly ! i);
            xj = fst (poly ! j); yj = snd (poly ! j);
            intersect =
              ((js_gt yi y \<noteq> js_gt yj y) \<and>
               js_lt x
                 (js_add
                    (js_div (js_mul (js_sub xj xi) (js_sub y yi))
                       (js_add (js_sub yj yi) (Fin (1 / 10 ^ 7))))
                    xi))
        in pipLoop x y poly (Suc i) i (if intersect then \<not> inside else inside)
      else inside)"
  by pat_completeness auto
termination
  by (relation "measure (\<lambda>(x, y, poly, i, j, inside). length poly - i)") auto

definition pointInPolygon :: "jsnum \<Rightarrow> jsnum \<Rightarrow> (jsnum \<times> jsnum) list \<Rightarrow> bool" where
  "pointInPolygon x y poly = pipLoop x y poly 0 (length poly - 1) False"

text \<open>
  \<open>distanceToSegment\<close>. On doubles \<open>dx * dx + dy * dy\<close> can underflow to zero for deltas
  that are not zero, and the quotient is then \<open>0 / 0\<close>; the exact arithmetic of the model
  does not underflow. The facts below use the function where both deltas are zero.
\<close>

definition distanceToSegment ::
  "jsnum \<Rightarrow> jsnum \<Rightarrow> jsnum \<Rightarrow> jsnum \<Rightarrow> jsnum \<Rightarrow> jsnum \<Rightarrow> jsnum" where
  "distanceToSegment px py x1 y1 x2 y2 =
     (let dx = js_sub x2 x1;
          dy = js_sub y2 y1
      in
      if js_eq dx (Fin 0) \<and> js_eq dy (Fin 0) then Math_hypot (js_sub px x1) (js_sub py y1)
      else
        let t = js_div (js_add (js_mul (js_sub px x1) dx) (js_mul (js_sub py y1) dy))
                  (js_add (js_mul dx dx) (js_mul dy dy));
            tt = Math_max (Fin 0) (Math_min (Fin 1) t);
            cx = js_add x1 (js_mul tt dx);
            cy = js_add y1 (js_mul tt dy)
        in Math_hypot (js_sub px cx) (js_sub py cy))"

text \<open>
  A coordinate in pixels: \<open>mercatorToCanvas\<close> of \<open>lonLatToMercator(coord[0], coord[1])\<close>,
  as the three branches of \<open>hitTest\<close> compute it.
\<close>

definition coordToCanvas ::
  "viewport \<Rightarrow> jsnum \<Rightarrow> jsnum \<Rightarrow> json \<Rightarrow> error + jsnum \<times> jsnum" where
  "coordToCanvas vp cssW cssH coord =
     bindE (index coord 0) (\<lambda>c0. bindE (index coord 1) (\<lambda>c1.
     bindE (toNum c0) (\<lambda>lon. bindE (toNum c1) (\<lambda>lat.
       let p = lonLatToMercator lon lat
       in Inr (mercatorToCanvas vp (fst p) (snd p) cssW cssH)))))"

text \<open>\<open>ring.map(...)\<close>: only an array has the method.\<close>

fun arrayMap :: "(json \<Rightarrow> error + 'b) \<Rightarrow> json \<Rightarrow> error + 'b list" where
  "arrayMap f (JArr xs) = mapE f xs"
| "arrayMap f v = Inl TypeError"

text \<open>
  The body of the loop of \<open>hitTest\<close> for one feature: \<open>True\<close> when the body returns the
  feature, \<open>False\<close> when the loop goes on to the next one.
\<close>

definition hitFeature ::
  "styles \<Rightarrow> viewport \<Rightarrow> jsnum \<Rightarrow> jsnum \<Rightarrow> jsnum \<Rightarrow> jsnum \<Rightarrow> ifeature \<Rightarrow> error + bool" where
  "hitFeature mergedStyles vp cssW cssH x y f =
     bindE (member (feature f) ''geometry'') (\<lambda>geom.
       if \<not> truthy geom then Inr False
       else
         let type = field geom ''type'' in
         if type = JStr ''Point'' then
           bindE (coordToCanvas vp cssW cssH (field geom ''coordinates'')) (\<lambda>c.
             let r = js_add (optOr (radius (point mergedStyles)) (Fin 4)) (Fin 4)
             in Inr (js_le (Math_hypot (js_sub (fst c) x) (js_sub (snd c) y)) r))
         else if type = JStr ''Polygon'' \<or> type = JStr ''MultiPolygon'' then
           (let polys = (if type = JStr ''Polygon'' then JArr [field geom ''coordinates'']
                         else field geom ''coordinates'')
            in
            bindE (iterate polys) (anyE (\<lambda>poly.
              bindE (index poly 0) (\<lambda>ring.
              bindE (arrayMap (coordToCanvas vp cssW cssH) ring) (\<lambda>ringPx.
                Inr (pointInPolygon x y ringPx))))))
         else if type = JStr ''LineString'' \<or> type = JStr ''MultiLineString'' then
           (let lines = (if type = JStr ''LineString'' then JArr [field geom ''coordinates'']
                         else field geom ''coordinates'');
                tolerance = js_add (optOr (lineWidth (line mergedStyles)) (Fin 2)) (Fin 6)
            in
            bindE (iterate lines) (anyE (\<lambda>ln.
              bindE (lengthOf ln) (\<lambda>n.
                anyE (\<lambda>vi.
                  bindE (index ln vi) (\<lambda>a. bindE (index ln (vi + 1)) (\<lambda>b.
                  bindE (coordToCanvas vp cssW cssH a) (\<lambda>pa.
                  bindE (coordToCanvas vp cssW cssH b) (\<lambda>pb.
                    let d = distanceToSegment x y (fst pa) (snd pa) (fst pb) (snd pb)
                    in Inr (js_le d tolerance)))))) [0 ..< n - 1]))))
         else Inr False)"

text \<open>The loop of \<open>hitTest\<close>, from the index \<open>i = k - 1\<close> downwards.\<close>

fun hitLoop ::
  "styles \<Rightarrow> viewport \<Rightarrow> jsnum \<Rightarrow> jsnum \<Rightarrow> jsnum \<Rightarrow> jsnum \<Rightarrow> ifeature list \<Rightarrow> nat
     \<Rightarrow> error + ifeature option" where
  "hitLoop mergedStyles vp cssW cssH x y fs 0 = Inr None"
| "hitLoop mergedStyles vp cssW cssH x y fs (Suc i) =
     bindE (hitFeature mergedStyles vp cssW cssH x y (fs ! i)) (\<lambda>hit.
       if hit then Inr (Some (fs ! i))
       else hitLoop mergedStyles vp cssW cssH x y fs i)"

text \<open>\<open>hitTest\<close>: \<open>None\<close> is the \<open>null\<close> it returns.\<close>

definition hitTest ::
  "styles \<Rightarrow> canvas option \<Rightarrow> state \<Rightarrow> jsnum \<Rightarrow> jsnum \<Rightarrow> error + ifeature option" where
  "hitTest mergedStyles canvasRef st x y =
     (case canvasRef of
        None \<Rightarrow> Inr None
      | Some canvas \<Rightarrow>
          hitLoop mergedStyles (viewport st) (clientWidth canvas) (clientHeight canvas) x y
            (features st) (length (features st)))"

section \<open>Notions used in the statements\<close>

subsection \<open>Coordinate leaves\<close>

text \<open>
  The coordinate leaves that \<open>visitCoords\<close> reaches in a value, in the order of the visit,
  each as its pair \<open>(lon, lat)\<close>; the leaves of one feature and of a whole input follow
  the dispatch of \<open>getBoundsOfGeojson\<close>.
\<close>

fun coordLeaves :: "json \<Rightarrow> (jsnum \<times> jsnum) list"
  and leavesEach :: "json list \<Rightarrow> (jsnum \<times> jsnum) list" where
  "coordLeaves (JArr cs) = (case numPair cs of Some l \<Rightarrow> [l] | None \<Rightarrow> leavesEach cs)"
| "coordLeaves v = []"
| "leavesEach [] = []"
| "leavesEach (c # cs) = coordLeaves c @ leavesEach cs"

definition featureLeaves :: "json \<Rightarrow> (jsnum \<times> jsnum) list" where
  "featureLeaves f =
     (let geom = field f ''geometry''; type = field geom ''type'' in
      if type = JStr ''Point'' \<or> type = JStr ''MultiPoint'' \<or> type = JStr ''LineString'' \<or>
         type = JStr ''MultiLineString'' \<or> type = JStr ''Polygon'' \<or>
         type = JStr ''MultiPolygon''
      then coordLeaves (field geom ''coordinates'')
      else if type = JStr ''GeometryCollection'' then
        (case field geom ''geometries'' of
           JArr gs \<Rightarrow> concat (map (\<lambda>g. coordLeaves (field g ''coordinates'')) gs)
         | v \<Rightarrow> [])
      else [])"

definition visitedLeaves :: "json \<Rightarrow> (jsnum \<times> jsnum) list" where
  "visitedLeaves geojson =
     (case extractFeatures geojson of
        Inl e \<Rightarrow> []
      | Inr fs \<Rightarrow> concat (map featureLeaves fs))"

text \<open>The step of the min/max fold at a leaf: project it and fold the projection in.\<close>

definition foldLeaf :: "jsnum \<times> jsnum \<Rightarrow> bounds \<Rightarrow> bounds" where
  "foldLeaf l b = foldPoint (lonLatToMercator (fst l) (snd l)) b"

text \<open>A leaf whose projection is finite, and one whose projection is not NaN.\<close>

definition finiteLeaf :: "jsnum \<times> jsnum \<Rightarrow> bool" where
  "finiteLeaf l = (isFinite (fst (lonLatToMercator (fst l) (snd l))) \<and>
                   isFinite (snd (lonLatToMercator (fst l) (snd l))))"


definition finiteBounds :: "bounds \<Rightarrow> bool" where
  "finiteBounds b =
     (isFinite (minX b) \<and> isFinite (minY b) \<and> isFinite (maxX b) \<and> isFinite (maxY b))"




subsection \<open>The fit as the specification words it\<close>

text \<open>
  Steps 2 and 3 of the specification's fit algorithm, from the world sizes:
  \<open>scale = min((surfaceWidth - 2 padding) / worldW, (surfaceHeight - 2 padding) / worldH)\<close>
  and \<open>translate = -min surfaceDim scale + padding +
  (surfaceDim - worldDim surfaceDim scale - 2 padding) / 2\<close>.
\<close>

definition spec_scaleTranslate ::
  "jsnum \<Rightarrow> jsnum \<Rightarrow> jsnum \<Rightarrow> jsnum \<Rightarrow> jsnum \<Rightarrow> bounds \<Rightarrow> viewport" where
  "spec_scaleTranslate worldW worldH padding surfaceWidth surfaceHeight b =
     (let s = Math_min (js_div (js_sub surfaceWidth (js_mul (Fin 2) padding)) worldW)
                       (js_div (js_sub surfaceHeight (js_mul (Fin 2) padding)) worldH)
      in \<lparr>scale = s,
          translateX =
            js_add (js_add (js_mul (js_mul (js_neg (minX b)) surfaceWidth) s) padding)
              (js_div (js_sub (js_sub surfaceWidth (js_mul (js_mul worldW surfaceWidth) s))
                         (js_mul (Fin 2) padding)) (Fin 2)),
          translateY =
            js_add (js_add (js_mul (js_mul (js_neg (minY b)) surfaceHeight) s) padding)
              (js_div (js_sub (js_sub surfaceHeight (js_mul (js_mul worldH surfaceHeight) s))
                         (js_mul (Fin 2) padding)) (Fin 2))\<rparr>)"

text \<open>
  The whole algorithm with step 1 as the specification words it:
  \<open>worldW = max(maxX - minX, eps)\<close> and \<open>worldH = max(maxY - minY, eps)\<close>.
\<close>

definition spec_fitToBounds ::
  "jsnum \<Rightarrow> jsnum \<Rightarrow> jsnum \<Rightarrow> jsnum \<Rightarrow> bounds \<Rightarrow> viewport" where
  "spec_fitToBounds eps padding surfaceWidth surfaceHeight b =
     spec_scaleTranslate (Math_max (js_sub (maxX b) (minX b)) eps)
       (Math_max (js_sub (maxY b) (minY b)) eps) padding surfaceWidth surfaceHeight b"

subsection \<open>Paths and markers\<close>

text \<open>The pixel of a leaf \<open>(lon, lat)\<close> under a viewport.\<close>

definition toPixel ::
  "viewport \<Rightarrow> jsnum \<Rightarrow> jsnum \<Rightarrow> jsnum \<times> jsnum \<Rightarrow> jsnum \<times> jsnum" where
  "toPixel vp ctxW ctxH l =
     mercatorToCanvas vp (fst (lonLatToMercator (fst l) (snd l)))
       (snd (lonLatToMercator (fst l) (snd l))) ctxW ctxH"

text \<open>
  The three kinds of coordinate for \<open>drawCoords\<close>. It throws at \<open>null\<close> and \<open>undefined\<close>
  (reading \<open>coords[0]\<close>) and at an object whose properties \<open>"0"\<close> and \<open>"1"\<close> are numbers
  (the destructuring of a value that is not iterable). An array that starts with two
  numbers is the pair of them. Every other value is skipped.
\<close>

fun throwsAt :: "json \<Rightarrow> bool" where
  "throwsAt JUndefined = True"
| "throwsAt JNull = True"
| "throwsAt (JObj kvs) = (isNumber (field (JObj kvs) ''0'') \<and> isNumber (field (JObj kvs) ''1''))"
| "throwsAt v = False"

fun pairOf :: "json \<Rightarrow> (jsnum \<times> jsnum) option" where
  "pairOf (JArr cs) = numPair cs"
| "pairOf v = None"

text \<open>The pairs among a list of coordinates, in order.\<close>

primrec pairsOf :: "json list \<Rightarrow> (jsnum \<times> jsnum) list" where
  "pairsOf [] = []"
| "pairsOf (c # cs) = (case pairOf c of None \<Rightarrow> pairsOf cs | Some l \<Rightarrow> l # pairsOf cs)"

text \<open>The coordinates before the first one that throws.\<close>

definition beforeThrow :: "json list \<Rightarrow> json list" where
  "beforeThrow coords = takeWhile (\<lambda>c. \<not> throwsAt c) coords"

text \<open>
  The elements of a list up to and with the first one that throws: the iterations of a
  loop that a \<open>TypeError\<close> in its body ends.
\<close>

primrec untilThrow :: "('a \<Rightarrow> bool) \<Rightarrow> 'a list \<Rightarrow> 'a list" where
  "untilThrow thr [] = []"
| "untilThrow thr (x # xs) = (if thr x then [x] else x # untilThrow thr xs)"

text \<open>The end of a drawing over coordinates: a \<open>TypeError\<close> if one of them throws.\<close>

definition thrown :: "json list \<Rightarrow> error + unit" where
  "thrown coords = (if list_ex throwsAt coords then Inl TypeError else Inr ())"

text \<open>A path through pixels: \<open>moveTo\<close> the first unless the path has started, \<open>lineTo\<close> the rest.\<close>

fun pathCalls :: "bool \<Rightarrow> (jsnum \<times> jsnum) list \<Rightarrow> drawcall list" where
  "pathCalls started [] = []"
| "pathCalls started (c # cs) =
     (if started then LineTo (fst c) (snd c) else MoveTo (fst c) (snd c)) # pathCalls True cs"

text \<open>
  The path calls of a list of coordinates: through the pixel of every pair before the
  first coordinate that throws.
\<close>

definition ringCalls ::
  "viewport \<Rightarrow> jsnum \<Rightarrow> jsnum \<Rightarrow> bool \<Rightarrow> json list \<Rightarrow> drawcall list" where
  "ringCalls vp ctxW ctxH started coords =
     pathCalls started (map (toPixel vp ctxW ctxH) (pairsOf (beforeThrow coords)))"

text \<open>The calls of one marker, of the style of a line, and of one polygon.\<close>

definition markerCalls :: "style \<Rightarrow> jsnum \<times> jsnum \<Rightarrow> drawcall list" where
  "markerCalls t c =
     [BeginPath, Arc (fst c) (snd c) (optOr (radius t) (Fin 3)) (Fin 0) (js_mul Math_PI (Fin 2))]
     @ fillAndStroke t"

definition linePrefix :: "style \<Rightarrow> drawcall list" where
  "linePrefix t =
     [SetLineWidth (optOr (lineWidth t) (Fin 1)), SetStrokeStyle (strOr (stroke t) ''#000'')]
     @ (case lineDash t of None \<Rightarrow> [] | Some d \<Rightarrow> [SetLineDash d])
     @ [BeginPath]"

definition polyCalls ::
  "style \<Rightarrow> viewport \<Rightarrow> jsnum \<Rightarrow> jsnum \<Rightarrow> json list list \<Rightarrow> drawcall list" where
  "polyCalls t vp ctxW ctxH rings =
     [BeginPath] @ ringCalls vp ctxW ctxH False (concat rings)
     @ (if list_ex throwsAt (concat rings) then [] else fillAndStroke t)"

subsection \<open>Distances\<close>

text \<open>The Euclidean distance of two points.\<close>

definition pointDist :: "real \<Rightarrow> real \<Rightarrow> real \<Rightarrow> real \<Rightarrow> real" where
  "pointDist px py qx qy = sqrt ((px - qx) * (px - qx) + (py - qy) * (py - qy))"

subsection \<open>Sample inputs\<close>

text \<open>The bare geometry \<open>{ type: "Point", coordinates: [0, 0] }\<close>.\<close>

definition barePoint :: json where
  "barePoint =
     JObj [(''type'', JStr ''Point''), (''coordinates'', JArr [JNum (Fin 0), JNum (Fin 0)])]"

text \<open>A \<open>MultiPoint\<close> of \<open>[0, 0]\<close> and \<open>[0, 180]\<close>; the second projects to a NaN ordinate.\<close>

definition polarInput :: json where
  "polarInput =
     JObj [(''type'', JStr ''MultiPoint''),
           (''coordinates'', JArr [JArr [JNum (Fin 0), JNum (Fin 0)],
                                   JArr [JNum (Fin 0), JNum (Fin 180)]])]"


text \<open>A collection of one line from \<open>[0, 0]\<close> to \<open>[180, 0]\<close>.\<close>

definition exampleCollection :: json where
  "exampleCollection =
     JObj [(''type'', JStr ''FeatureCollection''),
           (''features'', JArr [
              JObj [(''type'', JStr ''Feature''), (''properties'', JObj []),
                    (''geometry'',
                       JObj [(''type'', JStr ''LineString''),
                             (''coordinates'', JArr [JArr [JNum (Fin 0), JNum (Fin 0)],
                                                     JArr [JNum (Fin 180), JNum (Fin 0)]])])]])]"

text \<open>Bounds half a millionth wide and high, and the bounds of a single point.\<close>

definition tinyBounds :: bounds where
  "tinyBounds = \<lparr>minX = Fin 0, minY = Fin 0, maxX = Fin (5 / 10 ^ 7), maxY = Fin (5 / 10 ^ 7)\<rparr>"

definition pointBounds :: bounds where
  "pointBounds =
     \<lparr>minX = Fin (1 / 2), minY = Fin (1 / 2), maxX = Fin (1 / 2), maxY = Fin (1 / 2)\<rparr>"

text \<open>A canvas of 100 by 100 CSS pixels, the initial viewport, and a state around them.\<close>

definition squareCanvas :: canvas where
  "squareCanvas = \<lparr>clientWidth = Fin 100, clientHeight = Fin 100, context2d = True\<rparr>"

definition unitViewport :: viewport where
  "unitViewport = \<lparr>scale = Fin 1, translateX = Fin 0, translateY = Fin 0\<rparr>"

definition stateWith :: "ifeature list \<Rightarrow> bounds option \<Rightarrow> state" where
  "stateWith fs b =
     \<lparr>viewport = unitViewport, features = fs, featureBounds = b, hoverId = None, dpr = Fin 1\<rparr>"

text \<open>Internal features: a point at \<open>[0, 180]\<close>, a point at \<open>[0, 0]\<close> with a given index as
  identifier, a line of the vertex \<open>[0, 0]\<close> twice, and a line with a coordinate that is
  not a pair of numbers and one that projects to NaN.\<close>

definition polarPoint :: ifeature where
  "polarPoint =
     \<lparr>id' = IdNum (Fin 0),
      feature = synthetic (JObj [(''type'', JStr ''Point''),
                                 (''coordinates'', JArr [JNum (Fin 0), JNum (Fin 180)])])\<rparr>"

definition originPoint :: "nat \<Rightarrow> ifeature" where
  "originPoint i = \<lparr>id' = IdNum (Fin (real i)), feature = synthetic barePoint\<rparr>"

definition zeroLengthLine :: ifeature where
  "zeroLengthLine =
     \<lparr>id' = IdNum (Fin 0),
      feature = synthetic (JObj [(''type'', JStr ''LineString''),
                                 (''coordinates'', JArr [JArr [JNum (Fin 0), JNum (Fin 0)],
                                                         JArr [JNum (Fin 0), JNum (Fin 0)]])])\<rparr>"

definition brokenLine :: ifeature where
  "brokenLine =
     \<lparr>id' = IdNum (Fin 0),
      feature = synthetic (JObj [(''type'', JStr ''LineString''),
                                 (''coordinates'', JArr [JArr [JNum (Fin 0), JNum (Fin 0)],
                                                         JArr [JStr ''x'', JNum (Fin 0)],
                                                         JArr [JNum (Fin 0), JNum (Fin 180)],
                                                         JArr [JNum (Fin 180), JNum (Fin 0)]])])\<rparr>"

text \<open>A line with a \<open>null\<close> between two vertices, and a polygon of two rings.\<close>

definition nullLine :: ifeature where
  "nullLine =
     \<lparr>id' = IdNum (Fin 0),
      feature = synthetic (JObj [(''type'', JStr ''LineString''),
                                 (''coordinates'', JArr [JArr [JNum (Fin 0), JNum (Fin 0)],
                                                         JNull,
                                                         JArr [JNum (Fin 180), JNum (Fin 0)]])])\<rparr>"

definition twoRings :: ifeature where
  "twoRings =
     \<lparr>id' = IdNum (Fin 0),
      feature = synthetic (JObj [(''type'', JStr ''Polygon''),
                                 (''coordinates'',
                                    JArr [JArr [JArr [JNum (Fin 0), JNum (Fin 0)],
                                                JArr [JNum (Fin 180), JNum (Fin 0)]],
                                          JArr [JArr [JNum (Fin 0), JNum (Fin 180)]]])])\<rparr>"

section \<open>Basic facts\<close>

lemma bindE_Inr [simp]: "bindE (Inr v) f = f v"
  by (simp add: bindE_def)

lemma bindE_Inl [simp]: "bindE (Inl e) f = Inl e"
  by (simp add: bindE_def)

lemma js_sub_Fin: "js_sub (Fin a) (Fin b) = Fin (a - b)"
  by (simp add: js_sub_def)

lemma js_mul_commute: "js_mul a b = js_mul b a"
  by (cases a; cases b) auto

lemma member_field: "field v k = w \<Longrightarrow> w \<noteq> JUndefined \<Longrightarrow> member v k' = Inr (field v k')"
  by (cases v) auto

lemma truthy_field: "field v k = w \<Longrightarrow> w \<noteq> JUndefined \<Longrightarrow> truthy v"
  by (cases v) auto

text \<open>The projection at three sample coordinates.\<close>

lemma project_origin: "lonLatToMercator (Fin 0) (Fin 0) = (Fin (1 / 2), Fin (1 / 2))"
  by (simp add: lonLatToMercator_def Math_PI_def js_sub_def)

lemma project_east: "lonLatToMercator (Fin 180) (Fin 0) = (Fin 1, Fin (1 / 2))"
  by (simp add: lonLatToMercator_def Math_PI_def js_sub_def)

lemma project_lat180: "lonLatToMercator (Fin 0) (Fin 180) = (Fin (1 / 2), NaN)"
  by (simp add: lonLatToMercator_def Math_PI_def js_sub_def)

section \<open>Extraction\<close>

lemma extract_barePoint: "extractFeatures barePoint = Inr [synthetic barePoint]"
  by (simp add: extractFeatures_def barePoint_def)

lemma bounds_barePoint: "getBoundsOfGeojson barePoint = Inr (Some pointBounds)"
  by (simp add: getBoundsOfGeojson_def extract_barePoint visitFeature_def synthetic_def)
    (simp add: barePoint_def project_origin foldPoint_def initBounds_def pointBounds_def)

text \<open>
  Claim C7. Extracting the bare geometry \<open>{ type: "Point", coordinates: [0, 0] }\<close> yields
  exactly one synthetic feature that wraps the geometry with empty properties, and
  without an identifier function \<open>buildInternalFeatures\<close> gives it the identifier 0,
  its positional index.
\<close>

theorem extract_bare_point_geometry:
  "extractFeatures barePoint = Inr [synthetic barePoint] \<and>
   synthetic barePoint =
     JObj [(''type'', JStr ''Feature''), (''geometry'', barePoint), (''properties'', JObj [])] \<and>
   buildInternalFeatures None barePoint st =
     (st\<lparr>features := [\<lparr>id' = IdNum (Fin 0), feature = synthetic barePoint\<rparr>],
         featureBounds := Some pointBounds\<rparr>, None)"
  by (simp add: buildInternalFeatures_def extract_barePoint bounds_barePoint enumerate_simps)
    (simp add: synthetic_def)

theorem extract_bare_point_geometry_witness:
  "features (fst (buildInternalFeatures None barePoint (stateWith [] None))) =
     [\<lparr>id' = IdNum (Fin 0), feature = synthetic barePoint\<rparr>]"
  using extract_bare_point_geometry[of "stateWith [] None"] by simp

text \<open>
  Claim C8. For every input that is \<open>null\<close>, or whose \<open>type\<close> is none of
  \<open>FeatureCollection\<close>, \<open>Feature\<close> and \<open>GeometryCollection\<close> and that is not a bare
  geometry (a truthy \<open>type\<close> beside truthy \<open>coordinates\<close>), \<open>extractFeatures\<close> returns the
  empty list and throws nothing.
\<close>

theorem extract_anything_else_is_empty:
  assumes "geojson = JNull \<or>
     (field geojson ''type'' \<noteq> JStr ''FeatureCollection'' \<and>
      field geojson ''type'' \<noteq> JStr ''Feature'' \<and>
      field geojson ''type'' \<noteq> JStr ''GeometryCollection'' \<and>
      \<not> (truthy (field geojson ''type'') \<and> truthy (field geojson ''coordinates'')))"
  shows "extractFeatures geojson = Inr []"
  using assms by (auto simp: extractFeatures_def)

theorem extract_anything_else_is_empty_witness:
  "extractFeatures JNull = Inr [] \<and>
   extractFeatures (JObj [(''type'', JStr ''Topology''), (''features'', JNum (Fin 5))]) = Inr [] \<and>
   extractFeatures (JNum (Fin 7)) = Inr []"
  using extract_anything_else_is_empty[of JNull]
    extract_anything_else_is_empty[of "JObj [(''type'', JStr ''Topology''),
      (''features'', JNum (Fin 5))]"]
    extract_anything_else_is_empty[of "JNum (Fin 7)"]
  by simp

section \<open>Distance to a segment\<close>

lemma distance_degenerate:
  "distanceToSegment (Fin px) (Fin py) (Fin x1) (Fin y1) (Fin x1) (Fin y1) =
     Fin (pointDist px py x1 y1)"
  by (simp add: distanceToSegment_def js_sub_def pointDist_def)

section \<open>Bounds\<close>

subsection \<open>The bounds are the fold over the visited leaves\<close>

lemma visit_is_fold:
  "visitCoords c b = Inr b' \<Longrightarrow> b' = fold foldLeaf (coordLeaves c) b"
  "visitEach cs b = Inr b' \<Longrightarrow> b' = fold foldLeaf (leavesEach cs) b"
  by (induction c b and cs b arbitrary: b' and b' rule: visitCoords_visitEach.induct)
    (auto simp: foldLeaf_def split: option.splits sum.splits if_splits)

lemma members_are_fold:
  "foldE (\<lambda>g b'. bindE (member g ''coordinates'') (\<lambda>c. visitCoords c b')) gs b = Inr b' \<Longrightarrow>
   b' = fold foldLeaf (concat (map (\<lambda>g. coordLeaves (field g ''coordinates'')) gs)) b"
proof (induction gs arbitrary: b)
  case Nil
  then show ?case by simp
next
  case (Cons g gs)
  from Cons.prems obtain c b1 where c: "member g ''coordinates'' = Inr c"
    and v: "visitCoords c b = Inr b1"
    and r: "foldE (\<lambda>g b'. bindE (member g ''coordinates'') (\<lambda>c. visitCoords c b')) gs b1 = Inr b'"
    by (auto simp: bindE_def split: sum.splits)
  have "c = field g ''coordinates''" using c by (cases g) auto
  then show ?case using Cons.IH[OF r] visit_is_fold(1)[OF v] by simp
qed

lemma visitFeature_is_fold:
  assumes "visitFeature f b = Inr b'"
  shows "b' = fold foldLeaf (featureLeaves f) b"
proof -
  from assms obtain geom where m: "member f ''geometry'' = Inr geom"
    by (auto simp: visitFeature_def bindE_def split: sum.splits)
  have geom: "geom = field f ''geometry''" using m by (cases f) auto
  show ?thesis
  proof (cases "truthy geom")
    case False
    then have "field geom ''type'' = JUndefined" by (cases geom) auto
    then show ?thesis using assms m False
      by (simp add: visitFeature_def featureLeaves_def geom[symmetric])
  next
    case True
    show ?thesis
    proof (cases "field geom ''type'' = JStr ''GeometryCollection''")
      case gc: True
      show ?thesis
      proof (cases "field geom ''geometries''")
        case (JArr gs)
        then show ?thesis using assms m True gc members_are_fold[of gs b b']
          by (simp add: visitFeature_def featureLeaves_def geom[symmetric] js_or_def)
      next
        case (JStr x)
        show ?thesis
          using assms m True gc JStr
          by (cases x)
            (simp_all add: visitFeature_def featureLeaves_def geom[symmetric] js_or_def)
      qed (use assms m True gc in
            \<open>auto simp: visitFeature_def featureLeaves_def geom[symmetric] js_or_def
               split: if_splits sum.splits\<close>)
    next
      case False
      then show ?thesis
        using assms m True visit_is_fold(1)[of "field geom ''coordinates''" b b']
        by (auto simp: visitFeature_def featureLeaves_def geom[symmetric] Let_def
              split: if_splits)
    qed
  qed
qed

lemma features_are_fold:
  "foldE visitFeature fs b = Inr b' \<Longrightarrow> b' = fold foldLeaf (concat (map featureLeaves fs)) b"
proof (induction fs arbitrary: b)
  case Nil
  then show ?case by simp
next
  case (Cons f fs)
  from Cons.prems obtain b1 where v: "visitFeature f b = Inr b1"
    and r: "foldE visitFeature fs b1 = Inr b'"
    by (auto simp: bindE_def split: sum.splits)
  show ?case using Cons.IH[OF r] visitFeature_is_fold[OF v] by simp
qed

lemma bounds_are_fold:
  assumes "getBoundsOfGeojson g = Inr (Some b)"
  shows "b = fold foldLeaf (visitedLeaves g) initBounds"
proof -
  from assms obtain fs where e: "extractFeatures g = Inr fs"
    and f: "foldE visitFeature fs initBounds = Inr b"
    by (auto simp: getBoundsOfGeojson_def bindE_def split: sum.splits if_splits)
  show ?thesis using features_are_fold[OF f] by (simp add: visitedLeaves_def e)
qed


subsection \<open>Finite leaves give finite bounds\<close>

lemma axis_first_finite:
  "isFinite v \<Longrightarrow> isFinite (Math_min PInf v) \<and> isFinite (Math_max NInf v)"
  by (cases v) auto

lemma axis_step_finite:
  "isFinite lo \<Longrightarrow> isFinite v \<Longrightarrow> isFinite (Math_min lo v)"
  "isFinite hi \<Longrightarrow> isFinite v \<Longrightarrow> isFinite (Math_max hi v)"
  by (cases lo; cases v; simp) (cases hi; cases v; simp)

lemma foldLeaf_first_finite: "finiteLeaf l \<Longrightarrow> finiteBounds (foldLeaf l initBounds)"
  by (simp add: finiteLeaf_def finiteBounds_def foldLeaf_def foldPoint_def initBounds_def
        axis_first_finite)

lemma foldLeaf_step_finite: "finiteBounds b \<Longrightarrow> finiteLeaf l \<Longrightarrow> finiteBounds (foldLeaf l b)"
  by (simp add: finiteLeaf_def finiteBounds_def foldLeaf_def foldPoint_def axis_step_finite)

lemma fold_finite:
  "finiteBounds b \<Longrightarrow> list_all finiteLeaf ls \<Longrightarrow> finiteBounds (fold foldLeaf ls b)"
  by (induction ls arbitrary: b) (auto simp: foldLeaf_step_finite)

lemma fold_init_finite:
  "ls \<noteq> [] \<Longrightarrow> list_all finiteLeaf ls \<Longrightarrow> finiteBounds (fold foldLeaf ls initBounds)"
  by (cases ls) (auto simp: fold_finite foldLeaf_first_finite)

lemma bounds_exampleCollection:
  "getBoundsOfGeojson exampleCollection =
     Inr (Some \<lparr>minX = Fin (1 / 2), minY = Fin (1 / 2), maxX = Fin 1, maxY = Fin (1 / 2)\<rparr>)"
  by (simp add: getBoundsOfGeojson_def extractFeatures_def exampleCollection_def js_or_def
        visitFeature_def project_origin project_east foldPoint_def initBounds_def)

lemma leaves_exampleCollection:
  "visitedLeaves exampleCollection = [(Fin 0, Fin 0), (Fin 180, Fin 0)]"
  by (simp add: extractFeatures_def exampleCollection_def js_or_def visitedLeaves_def
        featureLeaves_def)

text \<open>
  Claim C1, as amended. \<open>getBoundsOfGeojson\<close> excludes no projected coordinate from the
  min/max fold: the bounds it returns are the fold over every visited leaf, whatever
  its projection. The returned bounds are finite whenever at least one leaf is visited
  and every visited leaf projects to finite coordinates.
\<close>

theorem getBounds_folds_every_leaf:
  assumes "getBoundsOfGeojson geojson = Inr (Some b)"
  shows "b = fold foldLeaf (visitedLeaves geojson) initBounds \<and>
         (visitedLeaves geojson \<noteq> [] \<and> list_all finiteLeaf (visitedLeaves geojson)
            \<longrightarrow> finiteBounds b)"
  using bounds_are_fold[OF assms] fold_init_finite by auto

theorem getBounds_folds_every_leaf_witness:
  "\<lparr>minX = Fin (1 / 2), minY = Fin (1 / 2), maxX = Fin 1, maxY = Fin (1 / 2)\<rparr> =
     fold foldLeaf (visitedLeaves exampleCollection) initBounds \<and>
   finiteBounds \<lparr>minX = Fin (1 / 2), minY = Fin (1 / 2), maxX = Fin 1, maxY = Fin (1 / 2)\<rparr>"
proof -
  have "visitedLeaves exampleCollection \<noteq> [] \<and>
        list_all finiteLeaf (visitedLeaves exampleCollection)"
    by (simp add: leaves_exampleCollection finiteLeaf_def project_origin project_east)
  then show ?thesis using getBounds_folds_every_leaf[OF bounds_exampleCollection] by blast
qed

text \<open>
  Claim C1 as stated fails on a \<open>MultiPoint\<close> of \<open>[0, 0]\<close> and \<open>[0, 180]\<close>: the first
  leaf projects to the finite \<open>(1/2, 1/2)\<close>, the second to \<open>(1/2, NaN)\<close> (the logarithm of
  \<open>tan \<pi> + 1 / cos \<pi> = -1\<close>), and the NaN is folded into \<open>minY\<close> and \<open>maxY\<close>.
\<close>

theorem getBounds_nonfinite_counterexample:
  "getBoundsOfGeojson polarInput =
     Inr (Some \<lparr>minX = Fin (1 / 2), minY = NaN, maxX = Fin (1 / 2), maxY = NaN\<rparr>) \<and>
   visitedLeaves polarInput = [(Fin 0, Fin 0), (Fin 0, Fin 180)] \<and>
   lonLatToMercator (Fin 0) (Fin 0) = (Fin (1 / 2), Fin (1 / 2)) \<and>
   lonLatToMercator (Fin 0) (Fin 180) = (Fin (1 / 2), NaN)"
  by (simp add: getBoundsOfGeojson_def extractFeatures_def polarInput_def synthetic_def
        visitFeature_def project_origin project_lat180 foldPoint_def initBounds_def
        visitedLeaves_def featureLeaves_def)

subsection \<open>Absent bounds and ordered bounds\<close>










section \<open>Fitting the viewport to the bounds\<close>

lemma fit_is_scaleTranslate:
  "fitViewport padding cssW cssH b =
     spec_scaleTranslate (num_or (js_sub (maxX b) (minX b)) (Fin (1 / 10 ^ 6)))
       (num_or (js_sub (maxY b) (minY b)) (Fin (1 / 10 ^ 6))) padding cssW cssH b"
  by (simp add: fitViewport_def spec_scaleTranslate_def Let_def js_mul_commute[of "Fin 2"])

lemma or_is_max:
  "d = Fin 0 \<or> js_le (Fin (1 / 10 ^ 6)) d \<Longrightarrow>
   num_or d (Fin (1 / 10 ^ 6)) = Math_max d (Fin (1 / 10 ^ 6))"
  by (cases d) (auto simp: num_or_def js_le_def)

lemma tiny_code: "scale (fitViewport (Fin 0) (Fin 100) (Fin 100) tinyBounds) = Fin (2 * 10 ^ 8)"
  by (simp add: fitViewport_def tinyBounds_def js_sub_def num_or_def Let_def)

lemma tiny_spec:
  "scale (spec_fitToBounds (Fin (1 / 10 ^ 6)) (Fin 0) (Fin 100) (Fin 100) tinyBounds)
     = Fin (10 ^ 8)"
  by (simp add: spec_fitToBounds_def spec_scaleTranslate_def tinyBounds_def js_sub_def Let_def)

lemma tiny_spec_eps:
  assumes "eps = 1 / 10 ^ 6"
  shows "scale (spec_fitToBounds (Fin eps) (Fin 0) (Fin 100) (Fin 100) tinyBounds) = Fin (10 ^ 8)"
  unfolding assms by (rule tiny_spec)

lemma point_code: "scale (fitViewport (Fin 0) (Fin 100) (Fin 100) pointBounds) = Fin (10 ^ 8)"
  by (simp add: fitViewport_def pointBounds_def js_sub_def num_or_def Let_def)

lemma point_spec:
  "0 < eps \<Longrightarrow>
   scale (spec_fitToBounds (Fin eps) (Fin 0) (Fin 100) (Fin 100) pointBounds) = Fin (100 / eps)"
  by (simp add: spec_fitToBounds_def spec_scaleTranslate_def pointBounds_def js_sub_def Let_def)

text \<open>
  Claim C3, as amended. For every bounds, surface size and padding, \<open>fitBounds\<close> takes
  \<open>worldW = maxX - minX\<close> when that difference is neither zero nor NaN and
  \<open>worldW = 1e-6\<close> when it is (and \<open>worldH\<close> likewise), and from these computes
  \<open>scale = min((surfaceWidth - 2 padding) / worldW, (surfaceHeight - 2 padding) / worldH)\<close>
  and \<open>translateX/Y = -min surfaceDim scale + padding +
  (surfaceDim - worldDim surfaceDim scale - 2 padding) / 2\<close>. The world sizes are
  \<open>max(maxX - minX, 1e-6)\<close> and \<open>max(maxY - minY, 1e-6)\<close> whenever each difference is zero
  or at least \<open>1e-6\<close>. With a canvas and bounds, \<open>fitBounds\<close> stores this viewport.
\<close>

theorem fitBounds_scale_translate:
  "fitViewport padding cssW cssH b =
     spec_scaleTranslate (num_or (js_sub (maxX b) (minX b)) (Fin (1 / 10 ^ 6)))
       (num_or (js_sub (maxY b) (minY b)) (Fin (1 / 10 ^ 6))) padding cssW cssH b \<and>
   ((js_sub (maxX b) (minX b) = Fin 0 \<or> js_le (Fin (1 / 10 ^ 6)) (js_sub (maxX b) (minX b))) \<and>
    (js_sub (maxY b) (minY b) = Fin 0 \<or> js_le (Fin (1 / 10 ^ 6)) (js_sub (maxY b) (minY b)))
    \<longrightarrow> fitViewport padding cssW cssH b =
          spec_fitToBounds (Fin (1 / 10 ^ 6)) padding cssW cssH b) \<and>
   (featureBounds st = Some b \<longrightarrow>
      viewport (fst (fitBounds padding background mergedStyles (Some cv) st)) =
        fitViewport padding (clientWidth cv) (clientHeight cv) b)"
proof -
  have "fitViewport padding cssW cssH b = spec_fitToBounds (Fin (1 / 10 ^ 6)) padding cssW cssH b"
    if "js_sub (maxX b) (minX b) = Fin 0 \<or> js_le (Fin (1 / 10 ^ 6)) (js_sub (maxX b) (minX b))"
      and "js_sub (maxY b) (minY b) = Fin 0 \<or> js_le (Fin (1 / 10 ^ 6)) (js_sub (maxY b) (minY b))"
    unfolding fit_is_scaleTranslate spec_fitToBounds_def or_is_max[OF that(1)]
      or_is_max[OF that(2)] ..
  moreover have "viewport (fst (fitBounds padding background mergedStyles (Some cv) st)) =
        fitViewport padding (clientWidth cv) (clientHeight cv) b"
    if "featureBounds st = Some b"
    using that by (simp add: fitBounds_def Let_def)
  ultimately show ?thesis using fit_is_scaleTranslate by blast
qed

theorem fitBounds_scale_translate_witness:
  "fitViewport (Fin 0) (Fin 100) (Fin 100) pointBounds =
     spec_fitToBounds (Fin (1 / 10 ^ 6)) (Fin 0) (Fin 100) (Fin 100) pointBounds \<and>
   viewport (fst (fitBounds (Fin 0) None defaultStyles (Some squareCanvas)
       (stateWith [] (Some pointBounds)))) =
     fitViewport (Fin 0) (clientWidth squareCanvas) (clientHeight squareCanvas) pointBounds"
proof -
  have c: "js_sub (maxX pointBounds) (minX pointBounds) = Fin 0"
    "js_sub (maxY pointBounds) (minY pointBounds) = Fin 0"
    by (simp_all add: pointBounds_def js_sub_def)
  have f: "featureBounds (stateWith [] (Some pointBounds)) = Some pointBounds"
    by (simp add: stateWith_def)
  have "fitViewport (Fin 0) (Fin 100) (Fin 100) pointBounds =
     spec_fitToBounds (Fin (1 / 10 ^ 6)) (Fin 0) (Fin 100) (Fin 100) pointBounds"
    using fitBounds_scale_translate[of "Fin 0" "Fin 100" "Fin 100" pointBounds] c by blast
  moreover have "viewport (fst (fitBounds (Fin 0) None defaultStyles (Some squareCanvas)
       (stateWith [] (Some pointBounds)))) =
     fitViewport (Fin 0) (clientWidth squareCanvas) (clientHeight squareCanvas) pointBounds"
    using fitBounds_scale_translate[of "Fin 0" _ _ pointBounds
        "stateWith [] (Some pointBounds)" None defaultStyles squareCanvas] f by blast
  ultimately show ?thesis by blast
qed

text \<open>
  Claim C3 as stated fails for every \<open>\<epsilon>\<close>. On the bounds of a single point the code
  divides by \<open>1e-6\<close>, so \<open>\<epsilon>\<close> can only be \<open>1e-6\<close>; on bounds \<open>5e-7\<close> wide and high, a
  surface of 100 by 100 and no padding, the code divides by the width itself and the
  scale is \<open>2e8\<close>, where \<open>max(5e-7, 1e-6)\<close> gives \<open>1e8\<close>.
\<close>

theorem fitBounds_max_counterexample:
  "scale (fitViewport (Fin 0) (Fin 100) (Fin 100) tinyBounds) = Fin (2 * 10 ^ 8) \<and>
   scale (spec_fitToBounds (Fin (1 / 10 ^ 6)) (Fin 0) (Fin 100) (Fin 100) tinyBounds)
     = Fin (10 ^ 8) \<and>
   \<not> (\<exists>eps>0. \<forall>b. fitViewport (Fin 0) (Fin 100) (Fin 100) b =
                    spec_fitToBounds (Fin eps) (Fin 0) (Fin 100) (Fin 100) b)"
proof -
  have "False" if e: "0 < eps"
    and a: "\<forall>b. fitViewport (Fin 0) (Fin 100) (Fin 100) b =
                    spec_fitToBounds (Fin eps) (Fin 0) (Fin 100) (Fin 100) b" for eps :: real
  proof -
    have "Fin (10 ^ 8) = Fin (100 / eps)"
      using a[rule_format, of pointBounds] point_code point_spec[OF e] by simp
    then have "eps * 10 ^ 8 = 100" using e by (simp add: field_simps)
    then have eps: "eps = 1 / 10 ^ 6" by simp
    have "Fin (2 * 10 ^ 8) = Fin (10 ^ 8 :: real)"
      using a[rule_format, of tinyBounds] tiny_code tiny_spec_eps[OF eps] by simp
    then show False by simp
  qed
  then show ?thesis using tiny_code tiny_spec by blast
qed

section \<open>Drawing a feature\<close>

subsection \<open>Coordinates and rings\<close>

lemma dec_0: "dec 0 = ''0''" by simp
lemma dec_1: "dec (Suc 0) = ''1''" by simp

lemma drawCoords_kinds:
  "drawCoords vp W H c =
     (if throwsAt c then Inl TypeError else Inr (map_option (toPixel vp W H) (pairOf c)))"
proof (cases c)
  case (JArr cs)
  then show ?thesis
    by (cases cs rule: numPair.cases) (simp_all add: drawCoords_def toPixel_def Let_def)
next
  case (JObj kvs)
  then show ?thesis
    by (simp add: drawCoords_def del: dec.simps add: dec_0 dec_1)
next
  case (JStr s)
  then show ?thesis by (simp add: drawCoords_def)
qed (simp_all add: drawCoords_def)

lemma pathCoord_kinds:
  "pathCoord vp W H c started =
     (if throwsAt c then ([], Inl TypeError)
      else case pairOf c of
             None \<Rightarrow> ([], Inr started)
           | Some l \<Rightarrow> (pathCalls started [toPixel vp W H l], Inr True))"
  by (simp add: pathCoord_def drawCoords_kinds liftE_def bindD_def split: option.splits)

lemma foldD_path:
  "foldD (pathCoord vp W H) coords started =
     (ringCalls vp W H started coords,
      if list_ex throwsAt coords then Inl TypeError
      else Inr (started \<or> pairsOf coords \<noteq> []))"
proof (induction coords arbitrary: started)
  case Nil
  then show ?case by (simp add: ringCalls_def beforeThrow_def)
next
  case (Cons c coords)
  have pc: "pathCoord vp W H c started =
     (if throwsAt c then ([], Inl TypeError)
      else case pairOf c of
             None \<Rightarrow> ([], Inr started)
           | Some l \<Rightarrow> (pathCalls started [toPixel vp W H l], Inr True))"
    by (rule pathCoord_kinds)
  show ?case
  proof (cases "throwsAt c")
    case True
    then show ?thesis
      by (simp add: pc bindD_def ringCalls_def beforeThrow_def)
  next
    case False
    then show ?thesis
      by (cases "pairOf c")
        (simp_all add: pc bindD_def Cons.IH ringCalls_def beforeThrow_def)
  qed
qed

lemma pathRing_array:
  "pathRing vp W H (JArr coords) started =
     (ringCalls vp W H started coords,
      if list_ex throwsAt coords then Inl TypeError
      else Inr (started \<or> pairsOf coords \<noteq> []))"
  by (simp add: pathRing_def liftE_def bindD_def foldD_path)

lemma pathCalls_append:
  "pathCalls started (xs @ ys) = pathCalls started xs @ pathCalls (started \<or> xs \<noteq> []) ys"
  by (induction xs arbitrary: started) auto

lemma pairsOf_append: "pairsOf (xs @ ys) = pairsOf xs @ pairsOf ys"
  by (induction xs) (auto split: option.splits)

lemma beforeThrow_append:
  "beforeThrow (xs @ ys) = (if list_ex throwsAt xs then beforeThrow xs else xs @ beforeThrow ys)"
  by (induction xs) (auto simp: beforeThrow_def)

lemma beforeThrow_clean: "\<not> list_ex throwsAt xs \<Longrightarrow> beforeThrow xs = xs"
  by (induction xs) (auto simp: beforeThrow_def)

lemma ringCalls_append:
  "ringCalls vp W H started (xs @ ys) =
     (if list_ex throwsAt xs then ringCalls vp W H started xs
      else ringCalls vp W H started xs @ ringCalls vp W H (started \<or> pairsOf xs \<noteq> []) ys)"
  by (simp add: ringCalls_def beforeThrow_append pairsOf_append pathCalls_append
        beforeThrow_clean)

lemma foldD_rings:
  "foldD (pathRing vp W H) (map JArr rings) started =
     (ringCalls vp W H started (concat rings),
      if list_ex throwsAt (concat rings) then Inl TypeError
      else Inr (started \<or> pairsOf (concat rings) \<noteq> []))"
proof (induction rings arbitrary: started)
  case Nil
  then show ?case by (simp add: ringCalls_def beforeThrow_def)
next
  case (Cons r rings)
  show ?case
    by (cases "list_ex throwsAt r")
      (simp_all add: pathRing_array bindD_def Cons.IH ringCalls_append pairsOf_append)
qed

lemma foldD_units:
  assumes "\<And>y. y \<in> set ys \<Longrightarrow>
             body (g y) = (calls y, if thr y then Inl TypeError else Inr ())"
  shows "foldD (\<lambda>x u. body x) (map g ys) () =
     (concat (map calls (untilThrow thr ys)),
      if list_ex thr ys then Inl TypeError else Inr ())"
  using assms
proof (induction ys)
  case Nil
  then show ?case by simp
next
  case (Cons y ys)
  then show ?case by (cases "thr y") (simp_all add: bindD_def)
qed

subsection \<open>The six geometry types\<close>

lemma list_ex_concat: "list_ex P (concat xss) = list_ex (list_ex P) xss"
  by (induction xss) auto

lemma throwsAt_no_pair: "throwsAt c \<Longrightarrow> pairOf c = None"
  by (cases c) auto

lemma drawMarker_calls: "drawMarker t c = (markerCalls t c, Inr ())"
  by (simp add: drawMarker_def markerCalls_def emit_def)

lemma drawPoint_kinds:
  "drawPoint t vp W H c =
   (case pairOf c of None \<Rightarrow> [] | Some l \<Rightarrow> markerCalls t (toPixel vp W H l),
    if throwsAt c then Inl TypeError else Inr ())"
  by (cases "pairOf c")
    (auto simp: drawPoint_def drawCoords_kinds liftE_def bindD_def emit_def drawMarker_calls
       throwsAt_no_pair)

lemma foldD_points:
  "foldD (\<lambda>coord u. drawPoint t vp W H coord) coords () =
   (concat (map (\<lambda>l. markerCalls t (toPixel vp W H l)) (pairsOf (beforeThrow coords))),
    thrown coords)"
proof (induction coords)
  case Nil
  then show ?case by (simp add: beforeThrow_def thrown_def)
next
  case (Cons c coords)
  show ?case
  proof (cases "throwsAt c")
    case True
    then show ?thesis
      by (simp add: drawPoint_kinds bindD_def beforeThrow_def thrown_def throwsAt_no_pair)
  next
    case False
    then show ?thesis
      using Cons.IH
      by (cases "pairOf c") (simp_all add: drawPoint_kinds bindD_def beforeThrow_def thrown_def)
  qed
qed

lemma geometry_truthy:
  assumes g: "field (feature f) ''geometry'' = geom"
    and t: "field geom ''type'' = JStr ty"
  shows "truthy geom" "truthy (feature f)"
proof -
  show tg: "truthy geom" using truthy_field[OF t] by simp
  have "geom \<noteq> JUndefined" using t by auto
  then show "truthy (feature f)" using truthy_field[OF g] by simp
qed

lemma drawFeature_Point:
  assumes g: "field (feature f) ''geometry'' = geom"
    and t: "field geom ''type'' = JStr ''Point''"
    and cs: "field geom ''coordinates'' = c"
  shows "drawFeature ms vp f W H =
     (case pairOf c of None \<Rightarrow> [] | Some l \<Rightarrow> markerCalls (point ms) (toPixel vp W H l),
      thrown [c])"
  using geometry_truthy[OF g t]
  by (simp add: drawFeature_def g t cs Let_def thrown_def drawPoint_kinds)

lemma drawFeature_MultiPoint:
  assumes g: "field (feature f) ''geometry'' = geom"
    and t: "field geom ''type'' = JStr ''MultiPoint''"
    and cs: "field geom ''coordinates'' = JArr coords"
  shows "drawFeature ms vp f W H =
     (concat (map (\<lambda>l. markerCalls (point ms) (toPixel vp W H l)) (pairsOf (beforeThrow coords))),
      thrown coords)"
  using geometry_truthy[OF g t]
  by (simp add: drawFeature_def g t cs Let_def liftE_def bindD_def foldD_points)

lemma drawLine_array:
  "drawLine vp W H (JArr r) =
     (ringCalls vp W H False r, if list_ex throwsAt r then Inl TypeError else Inr ())"
  by (simp add: drawLine_def pathRing_array bindD_def emit_def)

lemma foldD_lines:
  "foldD (\<lambda>ring u. drawLine vp W H ring) (map JArr rings) () =
     (concat (map (ringCalls vp W H False) (untilThrow (list_ex throwsAt) rings)),
      thrown (concat rings))"
  using foldD_units[of rings "drawLine vp W H" JArr "ringCalls vp W H False" "list_ex throwsAt"]
  by (simp add: drawLine_array thrown_def list_ex_concat)

lemma drawFeature_LineString:
  assumes g: "field (feature f) ''geometry'' = geom"
    and t: "field geom ''type'' = JStr ''LineString''"
    and cs: "field geom ''coordinates'' = JArr coords"
  shows "drawFeature ms vp f W H =
     (linePrefix (line ms) @ ringCalls vp W H False coords
      @ (if list_ex throwsAt coords then [] else [Stroke, SetLineDash []]),
      thrown coords)"
proof -
  have "foldD (\<lambda>ring u. drawLine vp W H ring) [JArr coords] () =
     (ringCalls vp W H False coords, thrown coords)"
    using foldD_lines[of vp W H "[coords]"] by simp
  then show ?thesis
    using geometry_truthy[OF g t]
    by (simp add: drawFeature_def g t cs Let_def liftE_def bindD_def emit_def linePrefix_def
          thrown_def del: foldD.simps)
qed

lemma drawFeature_MultiLineString:
  assumes g: "field (feature f) ''geometry'' = geom"
    and t: "field geom ''type'' = JStr ''MultiLineString''"
    and cs: "field geom ''coordinates'' = JArr (map JArr rings)"
  shows "drawFeature ms vp f W H =
     (linePrefix (line ms)
      @ concat (map (ringCalls vp W H False) (untilThrow (list_ex throwsAt) rings))
      @ (if list_ex throwsAt (concat rings) then [] else [Stroke, SetLineDash []]),
      thrown (concat rings))"
  using geometry_truthy[OF g t]
  by (simp add: drawFeature_def g t cs Let_def liftE_def bindD_def emit_def linePrefix_def
        foldD_lines thrown_def)

lemma drawPoly_array:
  "drawPoly t vp W H (JArr (map JArr p)) =
   (polyCalls t vp W H p, if list_ex throwsAt (concat p) then Inl TypeError else Inr ())"
  by (simp add: drawPoly_def foldD_rings bindD_def emit_def liftE_def polyCalls_def)

lemma foldD_polys:
  "foldD (\<lambda>poly u. drawPoly t vp W H poly) (map (\<lambda>p. JArr (map JArr p)) polys) () =
   (concat (map (polyCalls t vp W H) (untilThrow (\<lambda>p. list_ex throwsAt (concat p)) polys)),
    thrown (concat (concat polys)))"
  using foldD_units[of polys "drawPoly t vp W H" "\<lambda>p. JArr (map JArr p)" "polyCalls t vp W H"
      "\<lambda>p. list_ex throwsAt (concat p)"]
  by (simp add: drawPoly_array thrown_def list_ex_concat)

lemma drawFeature_Polygon:
  assumes g: "field (feature f) ''geometry'' = geom"
    and t: "field geom ''type'' = JStr ''Polygon''"
    and cs: "field geom ''coordinates'' = JArr (map JArr rings)"
  shows "drawFeature ms vp f W H = (polyCalls (polygon ms) vp W H rings, thrown (concat rings))"
proof -
  have "foldD (\<lambda>poly u. drawPoly (polygon ms) vp W H poly) [JArr (map JArr rings)] () =
      (polyCalls (polygon ms) vp W H rings, thrown (concat rings))"
    using foldD_polys[of "polygon ms" vp W H "[rings]"] by simp
  then show ?thesis
    using geometry_truthy[OF g t]
    by (simp add: drawFeature_def g t cs Let_def liftE_def bindD_def del: foldD.simps)
qed

lemma drawFeature_MultiPolygon:
  assumes g: "field (feature f) ''geometry'' = geom"
    and t: "field geom ''type'' = JStr ''MultiPolygon''"
    and cs: "field geom ''coordinates'' = JArr (map (\<lambda>p. JArr (map JArr p)) polys)"
  shows "drawFeature ms vp f W H =
     (concat (map (polyCalls (polygon ms) vp W H)
                (untilThrow (\<lambda>p. list_ex throwsAt (concat p)) polys)),
      thrown (concat (concat polys)))"
  using geometry_truthy[OF g t]
  by (simp add: drawFeature_def g t cs Let_def liftE_def bindD_def foldD_polys)

lemma pixel_lat180: "toPixel unitViewport (Fin 100) (Fin 100) (Fin 0, Fin 180) = (Fin 50, NaN)"
  by (simp add: toPixel_def project_lat180 mercatorToCanvas_def unitViewport_def)

lemma pixel_origin: "toPixel unitViewport (Fin 100) (Fin 100) (Fin 0, Fin 0) = (Fin 50, Fin 50)"
  by (simp add: toPixel_def project_origin mercatorToCanvas_def unitViewport_def)

lemma pixel_east: "toPixel unitViewport (Fin 100) (Fin 100) (Fin 180, Fin 0) = (Fin 100, Fin 50)"
  by (simp add: toPixel_def project_east mercatorToCanvas_def unitViewport_def)

text \<open>
  Claim C4, as amended. During rendering (\<open>drawFeature\<close>) of a geometry whose
  coordinates are nested arrays, a coordinate is skipped within the construction of its
  path or marker exactly when \<open>drawCoords\<close> returns \<open>null\<close> for it (its elements 0 and
  1 are not both numbers, and it is neither \<open>null\<close> nor \<open>undefined\<close>), and the
  coordinates after it are still drawn. Every coordinate that is an array starting with
  two numbers is passed at its pixel to \<open>arc\<close> (\<open>Point\<close>, \<open>MultiPoint\<close>) or to \<open>moveTo\<close>
  and \<open>lineTo\<close> (\<open>LineString\<close>, \<open>MultiLineString\<close>, \<open>Polygon\<close>, \<open>MultiPolygon\<close>),
  whether or not its Mercator projection is finite. A coordinate that is \<open>null\<close> or
  \<open>undefined\<close> (or an object with numbers at \<open>"0"\<close> and \<open>"1"\<close>) throws a \<open>TypeError\<close>
  that ends the drawing of the feature after the calls already made. For each of the
  six geometry types the calls and the outcome of \<open>drawFeature\<close> are exactly these.
\<close>

theorem drawFeature_draws_every_pair:
  assumes "field (feature f) ''geometry'' = geom"
  shows
  "drawCoords vp ctxW ctxH c =
     (if throwsAt c then Inl TypeError
      else Inr (map_option (toPixel vp ctxW ctxH) (pairOf c))) \<and>
   pathRing vp ctxW ctxH (JArr coords) started =
     (ringCalls vp ctxW ctxH started coords,
      if list_ex throwsAt coords then Inl TypeError
      else Inr (started \<or> pairsOf coords \<noteq> [])) \<and>
   (field geom ''type'' = JStr ''Point'' \<and> field geom ''coordinates'' = c \<longrightarrow>
      drawFeature mergedStyles vp f ctxW ctxH =
        (case pairOf c of
           None \<Rightarrow> []
         | Some l \<Rightarrow> markerCalls (point mergedStyles) (toPixel vp ctxW ctxH l),
         thrown [c])) \<and>
   (field geom ''type'' = JStr ''MultiPoint'' \<and> field geom ''coordinates'' = JArr coords \<longrightarrow>
      drawFeature mergedStyles vp f ctxW ctxH =
        (concat (map (\<lambda>l. markerCalls (point mergedStyles) (toPixel vp ctxW ctxH l))
                   (pairsOf (beforeThrow coords))),
         thrown coords)) \<and>
   (field geom ''type'' = JStr ''LineString'' \<and> field geom ''coordinates'' = JArr coords \<longrightarrow>
      drawFeature mergedStyles vp f ctxW ctxH =
        (linePrefix (line mergedStyles) @ ringCalls vp ctxW ctxH False coords
         @ (if list_ex throwsAt coords then [] else [Stroke, SetLineDash []]),
         thrown coords)) \<and>
   (field geom ''type'' = JStr ''MultiLineString'' \<and>
    field geom ''coordinates'' = JArr (map JArr rings) \<longrightarrow>
      drawFeature mergedStyles vp f ctxW ctxH =
        (linePrefix (line mergedStyles)
         @ concat (map (ringCalls vp ctxW ctxH False) (untilThrow (list_ex throwsAt) rings))
         @ (if list_ex throwsAt (concat rings) then [] else [Stroke, SetLineDash []]),
         thrown (concat rings))) \<and>
   (field geom ''type'' = JStr ''Polygon'' \<and>
    field geom ''coordinates'' = JArr (map JArr rings) \<longrightarrow>
      drawFeature mergedStyles vp f ctxW ctxH =
        (polyCalls (polygon mergedStyles) vp ctxW ctxH rings, thrown (concat rings))) \<and>
   (field geom ''type'' = JStr ''MultiPolygon'' \<and>
    field geom ''coordinates'' = JArr (map (\<lambda>p. JArr (map JArr p)) polys) \<longrightarrow>
      drawFeature mergedStyles vp f ctxW ctxH =
        (concat (map (polyCalls (polygon mergedStyles) vp ctxW ctxH)
                   (untilThrow (\<lambda>p. list_ex throwsAt (concat p)) polys)),
         thrown (concat (concat polys))))"
  apply (intro conjI impI)
         apply (rule drawCoords_kinds)
        apply (rule pathRing_array)
       apply (elim conjE, rule drawFeature_Point[OF assms]; assumption)
      apply (elim conjE, rule drawFeature_MultiPoint[OF assms]; assumption)
     apply (elim conjE, rule drawFeature_LineString[OF assms]; assumption)
    apply (elim conjE, rule drawFeature_MultiLineString[OF assms]; assumption)
   apply (elim conjE, rule drawFeature_Polygon[OF assms]; assumption)
  apply (elim conjE, rule drawFeature_MultiPolygon[OF assms]; assumption)
  done

theorem drawFeature_draws_every_pair_witness:
  "drawFeature defaultStyles unitViewport brokenLine (Fin 100) (Fin 100) =
     ([SetLineWidth (Fin 2), SetStrokeStyle ''#1976d2'', BeginPath,
       MoveTo (Fin 50) (Fin 50), LineTo (Fin 50) NaN, LineTo (Fin 100) (Fin 50),
       Stroke, SetLineDash []], Inr ()) \<and>
   drawFeature defaultStyles unitViewport nullLine (Fin 100) (Fin 100) =
     ([SetLineWidth (Fin 2), SetStrokeStyle ''#1976d2'', BeginPath,
       MoveTo (Fin 50) (Fin 50)], Inl TypeError) \<and>
   drawFeature defaultStyles unitViewport polarPoint (Fin 100) (Fin 100) =
     (markerCalls (point defaultStyles) (Fin 50, NaN), Inr ()) \<and>
   drawFeature defaultStyles unitViewport twoRings (Fin 100) (Fin 100) =
     ([BeginPath, MoveTo (Fin 50) (Fin 50), LineTo (Fin 100) (Fin 50), LineTo (Fin 50) NaN,
       SetFillStyle ''rgba(25,118,210,0.2)'', Fill,
       SetLineWidth (Fin 1), SetStrokeStyle ''#1976d2'', Stroke], Inr ())"
proof -
  let ?bc = "[JArr [JNum (Fin 0), JNum (Fin 0)], JArr [JStr ''x'', JNum (Fin 0)],
              JArr [JNum (Fin 0), JNum (Fin 180)], JArr [JNum (Fin 180), JNum (Fin 0)]]"
  let ?bg = "JObj [(''type'', JStr ''LineString''), (''coordinates'', JArr ?bc)]"
  let ?nc = "[JArr [JNum (Fin 0), JNum (Fin 0)], JNull, JArr [JNum (Fin 180), JNum (Fin 0)]]"
  let ?ng = "JObj [(''type'', JStr ''LineString''), (''coordinates'', JArr ?nc)]"
  let ?pc = "JArr [JNum (Fin 0), JNum (Fin 180)]"
  let ?pg = "JObj [(''type'', JStr ''Point''), (''coordinates'', ?pc)]"
  let ?rs = "[[JArr [JNum (Fin 0), JNum (Fin 0)], JArr [JNum (Fin 180), JNum (Fin 0)]],
              [JArr [JNum (Fin 0), JNum (Fin 180)]]]"
  let ?tg = "JObj [(''type'', JStr ''Polygon''), (''coordinates'', JArr (map JArr ?rs))]"
  have gb: "field (feature brokenLine) ''geometry'' = ?bg"
    and gn: "field (feature nullLine) ''geometry'' = ?ng"
    and gp: "field (feature polarPoint) ''geometry'' = ?pg"
    and gt: "field (feature twoRings) ''geometry'' = ?tg"
    by (simp_all add: brokenLine_def nullLine_def polarPoint_def twoRings_def synthetic_def)
  have hb: "field ?bg ''type'' = JStr ''LineString'' \<and> field ?bg ''coordinates'' = JArr ?bc"
    and hn: "field ?ng ''type'' = JStr ''LineString'' \<and> field ?ng ''coordinates'' = JArr ?nc"
    and hp: "field ?pg ''type'' = JStr ''Point'' \<and> field ?pg ''coordinates'' = ?pc"
    and ht: "field ?tg ''type'' = JStr ''Polygon'' \<and>
             field ?tg ''coordinates'' = JArr (map JArr ?rs)"
    by simp_all
  have 1: "drawFeature defaultStyles unitViewport brokenLine (Fin 100) (Fin 100) =
        (linePrefix (line defaultStyles) @ ringCalls unitViewport (Fin 100) (Fin 100) False ?bc
         @ (if list_ex throwsAt ?bc then [] else [Stroke, SetLineDash []]),
         thrown ?bc)"
    using drawFeature_draws_every_pair[OF gb, of unitViewport "Fin 100" "Fin 100" _ ?bc _ defaultStyles] hb by blast
  have 2: "drawFeature defaultStyles unitViewport nullLine (Fin 100) (Fin 100) =
        (linePrefix (line defaultStyles) @ ringCalls unitViewport (Fin 100) (Fin 100) False ?nc
         @ (if list_ex throwsAt ?nc then [] else [Stroke, SetLineDash []]),
         thrown ?nc)"
    using drawFeature_draws_every_pair[OF gn, of unitViewport "Fin 100" "Fin 100" _ ?nc _ defaultStyles] hn by blast
  have 3: "drawFeature defaultStyles unitViewport polarPoint (Fin 100) (Fin 100) =
        (case pairOf ?pc of
           None \<Rightarrow> []
         | Some l \<Rightarrow> markerCalls (point defaultStyles) (toPixel unitViewport (Fin 100) (Fin 100) l),
         thrown [?pc])"
    using drawFeature_draws_every_pair[OF gp, of unitViewport "Fin 100" "Fin 100" ?pc _ _ defaultStyles] hp by blast
  have 4: "drawFeature defaultStyles unitViewport twoRings (Fin 100) (Fin 100) =
        (polyCalls (polygon defaultStyles) unitViewport (Fin 100) (Fin 100) ?rs,
         thrown (concat ?rs))"
    using drawFeature_draws_every_pair[OF gt, of unitViewport "Fin 100" "Fin 100" _ _ _ defaultStyles ?rs] ht by blast
  show ?thesis
    unfolding 1 2 3 4
    by (simp add: linePrefix_def ringCalls_def beforeThrow_def thrown_def polyCalls_def
          fillAndStroke_def pixel_origin pixel_east pixel_lat180 defaultStyles_def num_or_def)
qed

text \<open>
  Claim C4 as stated fails on a \<open>Point\<close> at \<open>[0, 180]\<close>, whose projection has a NaN
  ordinate: under the initial viewport on a surface of 100 by 100 the coordinate is not
  skipped, and \<open>arc\<close> is called at \<open>(50, NaN)\<close>.
\<close>

theorem drawFeature_nonfinite_counterexample:
  "drawFeature defaultStyles unitViewport polarPoint (Fin 100) (Fin 100) =
     ([BeginPath, Arc (Fin 50) NaN (Fin 4) (Fin 0) (Fin (pi * 2)),
       SetFillStyle ''#1976d2'', Fill,
       SetLineWidth (Fin 1), SetStrokeStyle ''#fff'', Stroke], Inr ())"
proof -
  let ?pg = "JObj [(''type'', JStr ''Point''),
                   (''coordinates'', JArr [JNum (Fin 0), JNum (Fin 180)])]"
  have "drawFeature defaultStyles unitViewport polarPoint (Fin 100) (Fin 100) =
      (markerCalls (point defaultStyles) (toPixel unitViewport (Fin 100) (Fin 100) (Fin 0, Fin 180)),
       Inr ())"
    using drawFeature_Point[of polarPoint ?pg "JArr [JNum (Fin 0), JNum (Fin 180)]" defaultStyles
        unitViewport "Fin 100" "Fin 100"]
    by (simp add: polarPoint_def synthetic_def thrown_def)
  then show ?thesis
    by (simp add: pixel_lat180 markerCalls_def defaultStyles_def fillAndStroke_def
          Math_PI_def num_or_def)
qed

section \<open>Hit testing\<close>

subsection \<open>The loop returns the last feature that is hit\<close>

lemma hitLoop_Some:
  "hitLoop ms vp W H x y fs k = Inr (Some f) \<longleftrightarrow>
     (\<exists>i<k. f = fs ! i \<and> hitFeature ms vp W H x y (fs ! i) = Inr True \<and>
        (\<forall>j. i < j \<and> j < k \<longrightarrow> hitFeature ms vp W H x y (fs ! j) = Inr False))"
  (is "?lhs k \<longleftrightarrow> ?rhs k")
proof (induction k)
  case 0
  then show ?case by simp
next
  case (Suc k)
  show ?case
  proof (cases "hitFeature ms vp W H x y (fs ! k)")
    case (Inl e)
    have "\<not> ?rhs (Suc k)"
    proof
      assume "?rhs (Suc k)"
      then obtain i where i: "i < Suc k" "hitFeature ms vp W H x y (fs ! i) = Inr True"
        "\<forall>j. i < j \<and> j < Suc k \<longrightarrow> hitFeature ms vp W H x y (fs ! j) = Inr False" by blast
      show False
      proof (cases "i = k")
        case True
        then show ?thesis using i(2) Inl by simp
      next
        case False
        then have "i < k" using i(1) by simp
        then show ?thesis using i(3) Inl by auto
      qed
    qed
    then show ?thesis using Inl by simp
  next
    case (Inr hit)
    show ?thesis
    proof (cases hit)
      case True
      have "?rhs (Suc k) \<longleftrightarrow> f = fs ! k"
      proof
        assume "?rhs (Suc k)"
        then obtain i where i: "i < Suc k" "f = fs ! i"
          "\<forall>j. i < j \<and> j < Suc k \<longrightarrow> hitFeature ms vp W H x y (fs ! j) = Inr False" by blast
        have "i = k"
        proof (rule ccontr)
          assume "i \<noteq> k"
          then have "i < k" using i(1) by simp
          then show False using i(3) Inr True by auto
        qed
        then show "f = fs ! k" using i(2) by simp
      next
        assume "f = fs ! k"
        then show "?rhs (Suc k)"
          using Inr True by (intro exI[of _ k]) auto
      qed
      then show ?thesis using Inr True by auto
    next
      case False
      have "?rhs (Suc k) \<longleftrightarrow> ?rhs k"
      proof
        assume "?rhs (Suc k)"
        then obtain i where i: "i < Suc k" "f = fs ! i"
          "hitFeature ms vp W H x y (fs ! i) = Inr True"
          "\<forall>j. i < j \<and> j < Suc k \<longrightarrow> hitFeature ms vp W H x y (fs ! j) = Inr False" by blast
        have "i \<noteq> k" using i(3) Inr False by auto
        then have "i < k" using i(1) by simp
        then show "?rhs k" using i by (intro exI[of _ i]) auto
      next
        assume "?rhs k"
        then obtain i where i: "i < k" "f = fs ! i"
          "hitFeature ms vp W H x y (fs ! i) = Inr True"
          "\<forall>j. i < j \<and> j < k \<longrightarrow> hitFeature ms vp W H x y (fs ! j) = Inr False" by blast
        have "\<forall>j. i < j \<and> j < Suc k \<longrightarrow> hitFeature ms vp W H x y (fs ! j) = Inr False"
          using i(4) Inr False by (auto simp: less_Suc_eq)
        then show "?rhs (Suc k)" using i by (intro exI[of _ i]) auto
      qed
      then show ?thesis using Inr False Suc.IH by simp
    qed
  qed
qed

lemma hitLoop_None:
  "hitLoop ms vp W H x y fs k = Inr None \<longleftrightarrow>
     (\<forall>j<k. hitFeature ms vp W H x y (fs ! j) = Inr False)"
proof (induction k)
  case 0
  then show ?case by simp
next
  case (Suc k)
  show ?case
  proof (cases "hitFeature ms vp W H x y (fs ! k)")
    case (Inl e)
    then show ?thesis by auto
  next
    case (Inr hit)
    then show ?thesis using Suc.IH by (cases hit) (auto simp: less_Suc_eq)
  qed
qed

lemma hitTest_last:
  assumes "features st = fs @ [f]"
    and "hitFeature ms (viewport st) (clientWidth cv) (clientHeight cv) x y f = Inr True"
  shows "hitTest ms (Some cv) st x y = Inr (Some f)"
  using assms by (simp add: hitTest_def)

subsection \<open>Points and zero-length lines\<close>

lemma hitFeature_point:
  assumes g: "field (feature f) ''geometry'' = geom"
    and t: "field geom ''type'' = JStr ''Point''"
    and c: "coordToCanvas vp W H (field geom ''coordinates'') = Inr (Fin cx, Fin cy)"
  shows "hitFeature ms vp W H (Fin qx) (Fin qy) f =
     Inr (js_le (Fin (pointDist cx cy qx qy)) (js_add (optOr (radius (point ms)) (Fin 4)) (Fin 4)))"
proof -
  have gU: "geom \<noteq> JUndefined" using t by auto
  have m: "member (feature f) ''geometry'' = Inr geom"
    using member_field[OF g gU, of "''geometry''"] g by simp
  have tr: "truthy geom" using truthy_field[OF t] by simp
  show ?thesis
    by (simp add: hitFeature_def m tr t c js_sub_Fin pointDist_def)
qed

lemma hitFeature_degenerate_line:
  assumes g: "field (feature f) ''geometry'' = geom"
    and t: "field geom ''type'' = JStr ''LineString''"
    and cs: "field geom ''coordinates'' = JArr [v, v]"
    and c: "coordToCanvas vp W H v = Inr (Fin cx, Fin cy)"
  shows "hitFeature ms vp W H (Fin qx) (Fin qy) f =
     Inr (js_le (Fin (pointDist qx qy cx cy))
            (js_add (optOr (lineWidth (line ms)) (Fin 2)) (Fin 6)))"
proof -
  have gU: "geom \<noteq> JUndefined" using t by auto
  have m: "member (feature f) ''geometry'' = Inr geom"
    using member_field[OF g gU, of "''geometry''"] g by simp
  have tr: "truthy geom" using truthy_field[OF t] by simp
  have u: "[0..<Suc 0] = [0]" by simp
  show ?thesis
    by (simp add: hitFeature_def m tr t cs c distance_degenerate u)
qed

lemma origin_pixel:
  "coordToCanvas unitViewport (Fin 100) (Fin 100) (JArr [JNum (Fin 0), JNum (Fin 0)])
     = Inr (Fin 50, Fin 50)"
  by (simp add: coordToCanvas_def project_origin mercatorToCanvas_def unitViewport_def)

text \<open>
  Claim C5. With a canvas, \<open>hitTest\<close> goes through the feature list from its last
  element to its first and returns the first feature that is hit: it returns a feature
  exactly when that feature is hit and every later feature in the list is tested
  without a hit, and it returns \<open>null\<close> exactly when every feature is tested without a
  hit. In particular, when the list ends with two \<open>Point\<close> features at the same
  coordinates, whose pixel is finite, and the hit radius is not negative, a test at
  that pixel hits the earlier of the two as well and returns the later one.
\<close>

theorem hitTest_returns_topmost_hit:
  "(hitTest mergedStyles (Some cv) st x y = Inr (Some f) \<longleftrightarrow>
      (\<exists>i<length (features st). f = features st ! i \<and>
         hitFeature mergedStyles (viewport st) (clientWidth cv) (clientHeight cv) x y
           (features st ! i) = Inr True \<and>
         (\<forall>j. i < j \<and> j < length (features st) \<longrightarrow>
            hitFeature mergedStyles (viewport st) (clientWidth cv) (clientHeight cv) x y
              (features st ! j) = Inr False))) \<and>
   (hitTest mergedStyles (Some cv) st x y = Inr None \<longleftrightarrow>
      (\<forall>j<length (features st).
         hitFeature mergedStyles (viewport st) (clientWidth cv) (clientHeight cv) x y
           (features st ! j) = Inr False)) \<and>
   (features st = fs @ [f1, f2] \<and>
    field (feature f1) ''geometry'' = g1 \<and> field g1 ''type'' = JStr ''Point'' \<and>
    field g1 ''coordinates'' = c \<and>
    field (feature f2) ''geometry'' = g2 \<and> field g2 ''type'' = JStr ''Point'' \<and>
    field g2 ''coordinates'' = c \<and>
    coordToCanvas (viewport st) (clientWidth cv) (clientHeight cv) c = Inr (Fin cx, Fin cy) \<and>
    js_le (Fin 0) (js_add (optOr (radius (point mergedStyles)) (Fin 4)) (Fin 4)) \<longrightarrow>
      hitFeature mergedStyles (viewport st) (clientWidth cv) (clientHeight cv) (Fin cx) (Fin cy) f1
        = Inr True \<and>
      hitTest mergedStyles (Some cv) st (Fin cx) (Fin cy) = Inr (Some f2))"
proof -
  have two: "hitFeature mergedStyles (viewport st) (clientWidth cv) (clientHeight cv)
        (Fin cx) (Fin cy) f1 = Inr True \<and>
      hitTest mergedStyles (Some cv) st (Fin cx) (Fin cy) = Inr (Some f2)"
    if h: "features st = fs @ [f1, f2]"
      "field (feature f1) ''geometry'' = g1" "field g1 ''type'' = JStr ''Point''"
      "field g1 ''coordinates'' = c"
      "field (feature f2) ''geometry'' = g2" "field g2 ''type'' = JStr ''Point''"
      "field g2 ''coordinates'' = c"
      "coordToCanvas (viewport st) (clientWidth cv) (clientHeight cv) c = Inr (Fin cx, Fin cy)"
      "js_le (Fin 0) (js_add (optOr (radius (point mergedStyles)) (Fin 4)) (Fin 4))"
  proof -
    have d: "pointDist cx cy cx cy = 0" by (simp add: pointDist_def)
    have c1: "coordToCanvas (viewport st) (clientWidth cv) (clientHeight cv)
        (field g1 ''coordinates'') = Inr (Fin cx, Fin cy)" using h(4,8) by simp
    have c2: "coordToCanvas (viewport st) (clientWidth cv) (clientHeight cv)
        (field g2 ''coordinates'') = Inr (Fin cx, Fin cy)" using h(7,8) by simp
    have 1: "hitFeature mergedStyles (viewport st) (clientWidth cv) (clientHeight cv)
        (Fin cx) (Fin cy) f1 = Inr True"
      using hitFeature_point[OF h(2) h(3) c1, of mergedStyles cx cy] h(9) by (simp add: d)
    have 2: "hitFeature mergedStyles (viewport st) (clientWidth cv) (clientHeight cv)
        (Fin cx) (Fin cy) f2 = Inr True"
      using hitFeature_point[OF h(5) h(6) c2, of mergedStyles cx cy] h(9) by (simp add: d)
    have "features st = (fs @ [f1]) @ [f2]" using h(1) by simp
    then show ?thesis using 1 hitTest_last[OF _ 2] by blast
  qed
  show ?thesis
    using two by (simp add: hitTest_def hitLoop_Some hitLoop_None)
qed

theorem hitTest_returns_topmost_hit_witness:
  "hitTest defaultStyles (Some squareCanvas) (stateWith [originPoint 0, originPoint 1] None)
     (Fin 50) (Fin 50) = Inr (Some (originPoint 1)) \<and>
   hitFeature defaultStyles unitViewport (Fin 100) (Fin 100) (Fin 50) (Fin 50) (originPoint 0)
     = Inr True \<and>
   hitTest defaultStyles (Some squareCanvas) (stateWith [] None) (Fin 50) (Fin 50) = Inr None"
proof -
  let ?st = "stateWith [originPoint 0, originPoint 1] None"
  have h: "features ?st = [] @ [originPoint 0, originPoint 1] \<and>
    field (feature (originPoint 0)) ''geometry'' = barePoint \<and>
    field barePoint ''type'' = JStr ''Point'' \<and>
    field barePoint ''coordinates'' = JArr [JNum (Fin 0), JNum (Fin 0)] \<and>
    field (feature (originPoint 1)) ''geometry'' = barePoint \<and>
    field barePoint ''type'' = JStr ''Point'' \<and>
    field barePoint ''coordinates'' = JArr [JNum (Fin 0), JNum (Fin 0)] \<and>
    coordToCanvas (viewport ?st) (clientWidth squareCanvas) (clientHeight squareCanvas)
      (JArr [JNum (Fin 0), JNum (Fin 0)]) = Inr (Fin 50, Fin 50) \<and>
    js_le (Fin 0) (js_add (optOr (radius (point defaultStyles)) (Fin 4)) (Fin 4))"
    using origin_pixel
    by (simp add: stateWith_def originPoint_def synthetic_def barePoint_def squareCanvas_def
          defaultStyles_def num_or_def js_le_def)
  have v: "viewport ?st = unitViewport" "clientWidth squareCanvas = Fin 100"
    "clientHeight squareCanvas = Fin 100"
    by (simp_all add: stateWith_def squareCanvas_def)
  have 1: "hitFeature defaultStyles (viewport ?st) (clientWidth squareCanvas)
        (clientHeight squareCanvas) (Fin 50) (Fin 50) (originPoint 0) = Inr True \<and>
      hitTest defaultStyles (Some squareCanvas) ?st (Fin 50) (Fin 50)
        = Inr (Some (originPoint 1))"
    using hitTest_returns_topmost_hit[of defaultStyles squareCanvas ?st _ _ _ "[]"
        "originPoint 0" "originPoint 1" barePoint "JArr [JNum (Fin 0), JNum (Fin 0)]"
        barePoint 50 50] h
    by blast
  have e: "\<forall>j<length (features (stateWith [] None)).
         hitFeature defaultStyles (viewport (stateWith [] None)) (clientWidth squareCanvas)
           (clientHeight squareCanvas) (Fin 50) (Fin 50) (features (stateWith [] None) ! j)
           = Inr False"
    by (simp add: stateWith_def)
  have 2: "hitTest defaultStyles (Some squareCanvas) (stateWith [] None) (Fin 50) (Fin 50)
      = Inr None"
    using hitTest_returns_topmost_hit[of defaultStyles squareCanvas "stateWith [] None"
        "Fin 50" "Fin 50"] e
    by blast
  show ?thesis using 1 2 unfolding v by blast
qed

text \<open>
  Claim C9. For a \<open>LineString\<close> of one vertex twice, whose pixel is finite, a hit test
  at a finite pixel divides by nothing: both deltas of the segment are zero, so
  \<open>distanceToSegment\<close> returns the plain distance \<open>Math.hypot(px - x1, py - y1)\<close> from
  the pixel to the vertex, and the feature is hit exactly when that distance is within
  the line tolerance; \<open>hitTest\<close> then returns the feature when it is the last of the
  list.
\<close>

theorem hitTest_zero_length_line:
  assumes "field (feature f) ''geometry'' = geom"
    and "field geom ''type'' = JStr ''LineString''"
    and "field geom ''coordinates'' = JArr [v, v]"
    and "coordToCanvas (viewport st) (clientWidth cv) (clientHeight cv) v = Inr (Fin cx, Fin cy)"
  shows "js_eq (js_sub (Fin cx) (Fin cx)) (Fin 0) \<and> js_eq (js_sub (Fin cy) (Fin cy)) (Fin 0) \<and>
    distanceToSegment (Fin qx) (Fin qy) (Fin cx) (Fin cy) (Fin cx) (Fin cy) =
      Math_hypot (js_sub (Fin qx) (Fin cx)) (js_sub (Fin qy) (Fin cy)) \<and>
    Math_hypot (js_sub (Fin qx) (Fin cx)) (js_sub (Fin qy) (Fin cy))
      = Fin (pointDist qx qy cx cy) \<and>
    hitFeature mergedStyles (viewport st) (clientWidth cv) (clientHeight cv) (Fin qx) (Fin qy) f =
      Inr (js_le (Fin (pointDist qx qy cx cy))
             (js_add (optOr (lineWidth (line mergedStyles)) (Fin 2)) (Fin 6))) \<and>
    (features st = fs @ [f] \<and>
     js_le (Fin (pointDist qx qy cx cy))
       (js_add (optOr (lineWidth (line mergedStyles)) (Fin 2)) (Fin 6)) \<longrightarrow>
       hitTest mergedStyles (Some cv) st (Fin qx) (Fin qy) = Inr (Some f))"
proof -
  have h: "hitFeature mergedStyles (viewport st) (clientWidth cv) (clientHeight cv)
      (Fin qx) (Fin qy) f =
      Inr (js_le (Fin (pointDist qx qy cx cy))
             (js_add (optOr (lineWidth (line mergedStyles)) (Fin 2)) (Fin 6)))"
    by (rule hitFeature_degenerate_line[OF assms])
  have t: "hitTest mergedStyles (Some cv) st (Fin qx) (Fin qy) = Inr (Some f)"
    if "features st = fs @ [f]"
      "js_le (Fin (pointDist qx qy cx cy))
       (js_add (optOr (lineWidth (line mergedStyles)) (Fin 2)) (Fin 6))"
    using hitTest_last[OF that(1)] h that(2) by simp
  have g: "js_eq (js_sub (Fin cx) (Fin cx)) (Fin 0) \<and> js_eq (js_sub (Fin cy) (Fin cy)) (Fin 0)"
    by (simp add: js_sub_Fin)
  have m: "Math_hypot (js_sub (Fin qx) (Fin cx)) (js_sub (Fin qy) (Fin cy))
      = Fin (pointDist qx qy cx cy)"
    by (simp add: js_sub_Fin pointDist_def)
  show ?thesis using g m h t distance_degenerate[of qx qy cx cy] by simp
qed

theorem hitTest_zero_length_line_witness:
  "distanceToSegment (Fin 53) (Fin 54) (Fin 50) (Fin 50) (Fin 50) (Fin 50) = Fin 5 \<and>
   hitTest defaultStyles (Some squareCanvas) (stateWith [zeroLengthLine] None) (Fin 53) (Fin 54)
     = Inr (Some zeroLengthLine)"
proof -
  let ?st = "stateWith [zeroLengthLine] None"
  let ?v = "JArr [JNum (Fin 0), JNum (Fin 0)]"
  let ?g = "JObj [(''type'', JStr ''LineString''), (''coordinates'', JArr [?v, ?v])]"
  have a: "field (feature zeroLengthLine) ''geometry'' = ?g"
    "field ?g ''type'' = JStr ''LineString''"
    "field ?g ''coordinates'' = JArr [?v, ?v]"
    by (simp_all add: zeroLengthLine_def synthetic_def)
  have c: "coordToCanvas (viewport ?st) (clientWidth squareCanvas) (clientHeight squareCanvas) ?v
      = Inr (Fin 50, Fin 50)"
    using origin_pixel by (simp add: stateWith_def squareCanvas_def)
  have d: "pointDist 53 54 50 50 = 5"
  proof -
    have "pointDist 53 54 50 50 = sqrt (5\<^sup>2)" by (simp add: pointDist_def)
    then show ?thesis by simp
  qed
  have t: "features ?st = [] @ [zeroLengthLine] \<and>
     js_le (Fin (pointDist 53 54 50 50))
       (js_add (optOr (lineWidth (line defaultStyles)) (Fin 2)) (Fin 6))"
    by (simp add: d stateWith_def defaultStyles_def num_or_def js_le_def)
  show ?thesis
    using hitTest_zero_length_line[OF a c, of 53 54 defaultStyles "[]"] t by (simp add: d)
qed

end
